theory Spec2Isabelle
  imports Main
begin

section \<open>JavaScript strings and values\<close>

text \<open>
  A JavaScript string is modelled as a HOL \<open>string\<close>: one \<open>char\<close> per code unit, for
  the code units below 256. The functions below are the string and array methods the
  linter and the extractor call, under the names they have in the source (with a suffix
  where the name is taken in Isabelle).
\<close>

definition startsWith :: "string \<Rightarrow> string \<Rightarrow> bool" where
  "startsWith s p = (take (length p) s = p)"

definition slice_from :: "nat \<Rightarrow> string \<Rightarrow> string" where
  "slice_from n s = drop n s"


text \<open>
  The white space of \<open>\s\<close> and of \<open>trim\<close> (tab, line feed, vertical tab, form feed,
  carriage return, space, no-break space), and the word characters of \<open>\w\<close>.
\<close>

definition isSpace :: "char \<Rightarrow> bool" where
  "isSpace c = (of_char c \<in> {9, 10, 11, 12, 13, 32, 160 :: nat})"


definition trim :: "string \<Rightarrow> string" where
  "trim s = rev (dropWhile isSpace (rev (dropWhile isSpace s)))"

definition toLowerCase :: "string \<Rightarrow> string" where
  "toLowerCase s =
     map (\<lambda>c. if 65 \<le> (of_char c :: nat) \<and> (of_char c :: nat) \<le> 90
               then char_of ((of_char c :: nat) + 32) else c) s"




text \<open>Decimal digits of a number, as a template literal prints it.\<close>

fun digitChar :: "nat \<Rightarrow> char" where
  "digitChar n = char_of (48 + n)"

fun string_of_nat :: "nat \<Rightarrow> string" where
  "string_of_nat n =
     (if n < 10 then [digitChar n] else string_of_nat (n div 10) @ [digitChar (n mod 10)])"

declare string_of_nat.simps [simp del]

text \<open>
  The syntax tree that the parser returns, and a translation tree, are plain data: objects
  with their entries in the order \<open>Object.keys\<close> lists them, arrays, strings, numbers,
  booleans, \<open>null\<close> and \<open>undefined\<close>. Numbers are the integral ones.
\<close>

datatype jsval =
    JUndefined
  | JNull
  | JBool bool
  | JNum int
  | JStr string
  | JArr "jsval list"
  | JObj "(string \<times> jsval) list"

fun truthy :: "jsval \<Rightarrow> bool" where
  "truthy JUndefined = False"
| "truthy JNull = False"
| "truthy (JBool b) = b"
| "truthy (JNum n) = (n \<noteq> 0)"
| "truthy (JStr s) = (s \<noteq> [])"
| "truthy (JArr xs) = True"
| "truthy (JObj kvs) = True"


text \<open>
  \<open>v.k\<close> for the property names the source reads (\<open>type\<close>, \<open>callee\<close>, \<open>value\<close>, \<open>name\<close>,
  \<open>property\<close>, \<open>arguments\<close>, \<open>expression\<close>, \<open>raw\<close>, \<open>properties\<close>, \<open>key\<close>): only an
  object can have them. On \<open>null\<close> and \<open>undefined\<close> this is the optional read \<open>v?.k\<close>;
  where the source reads a property of a nullish value without \<open>?.\<close>, the model raises
  \<open>TypeError\<close> before calling \<open>getProp\<close>.
\<close>

fun getProp :: "jsval \<Rightarrow> string \<Rightarrow> jsval" where
  "getProp (JObj kvs) k = (case map_of kvs k of Some v \<Rightarrow> v | None \<Rightarrow> JUndefined)"
| "getProp v k = JUndefined"



section \<open>Thrown values\<close>

text \<open>
  An \<open>Error\<close> instance, as far as the code observes it: its \<open>name\<close>, its \<open>message\<close>
  (a string, as \<open>Error\<close> declares it) and its \<open>stack\<close> (which may be undefined).
\<close>

record jserror =
  error_name :: string
  message :: string
  stack :: "string option"

text \<open>
  What the \<open>catch\<close> clauses of the extractor receive. The code observes a
  thrown value through \<open>instanceof Error\<close>, \<open>typeof err === 'string'\<close>, \<open>String(err)\<close>
  and \<open>err.toString()\<close>, \<open>err.message\<close> and \<open>err.stack\<close>. \<open>ThrownOther r\<close> stands for any
  other value that is not an Error and has neither \<open>message\<close> nor \<open>stack\<close> (a number, a
  boolean, a plain object), given by its string conversion \<open>r\<close>.
\<close>

datatype thrown =
    ErrorObj jserror
  | ThrownString string
  | ThrownNull
  | ThrownUndefined
  | ThrownOther string

text \<open>\<open>String(v)\<close>; for an Error this is \<open>Error.prototype.toString\<close>.\<close>

fun String_of :: "thrown \<Rightarrow> string" where
  "String_of (ThrownString s) = s"
| "String_of ThrownNull = ''null''"
| "String_of ThrownUndefined = ''undefined''"
| "String_of (ThrownOther r) = r"
| "String_of (ErrorObj e) =
     (if error_name e = [] then message e
      else if message e = [] then error_name e
      else error_name e @ '': '' @ message e)"

section \<open>Configuration\<close>

text \<open>
  The fields of \<open>I18nextToolkitConfig\<close> that the modelled functions read. An optional
  field is an \<open>option\<close>. The plugins are passed beside the configuration, as
  \<open>processFile\<close> takes them.
\<close>

datatype indentation = IndentWidth nat | IndentString string

record extractConfig =
  primaryLanguage :: "string option"
  secondaryLanguages :: "string list option"
  functionPatterns :: "string list option"
  transComponents :: "string list option"
  outputFormat :: "string option"
  indentation :: "indentation option"
  extractFromComments :: "bool option"
  interpolationPrefix :: "string option"
  interpolationSuffix :: "string option"

record lintConfig =
  checkInterpolationParams :: "bool option"

record config =
  locales :: "string list"
  extract_cfg :: extractConfig
  lint_cfg :: "lintConfig option"

section \<open>The linter: interpolation keys of a translation string\<close>














section \<open>The linter: call sites\<close>




text \<open>The first part of \<open>handleCallExpression\<close>: the name of the callee.\<close>

definition calleeNameOf :: "jsval \<Rightarrow> jsval" where
  "calleeNameOf node =
     (let callee = getProp node ''callee''
      in if truthy callee then
           (if getProp callee ''type'' = JStr ''Identifier'' \<and> truthy (getProp callee ''value'')
              then getProp callee ''value''
            else if getProp callee ''type'' = JStr ''Identifier'' \<and> truthy (getProp callee ''name'')
              then getProp callee ''name''
            else if getProp callee ''type'' = JStr ''MemberExpression''
                    \<and> getProp (getProp callee ''property'') ''type'' = JStr ''Identifier''
              then (if truthy (getProp (getProp callee ''property'') ''value'')
                    then getProp (getProp callee ''property'') ''value''
                    else getProp (getProp callee ''property'') ''name'')
            else JStr [])
         else JStr [])"

text \<open>The loop over \<open>fnPatterns\<close>, with the flag \<open>matches\<close> it sets.\<close>

fun matchesPatterns :: "string list \<Rightarrow> jsval \<Rightarrow> bool \<Rightarrow> bool" where
  "matchesPatterns [] calleeName matches = matches"
| "matchesPatterns (pattern # fnPatterns) calleeName matches =
     matchesPatterns fnPatterns calleeName
       (if startsWith pattern ''*.''
        then (if calleeName = JStr (slice_from 2 pattern) then True else matches)
        else (if calleeName = JStr pattern then True else matches))"

definition fnPatternsOf :: "config \<Rightarrow> string list" where
  "fnPatternsOf cfg =
     (case functionPatterns (extract_cfg cfg) of Some fs \<Rightarrow> fs | None \<Rightarrow> [''t'', ''*.t''])"

definition callMatches :: "config \<Rightarrow> jsval \<Rightarrow> bool" where
  "callMatches cfg node = matchesPatterns (fnPatternsOf cfg) (calleeNameOf node) False"






definition quoteMark :: string where
  "quoteMark = [CHR 0x22]"



text \<open>
  \<open>walk\<close> visits an object or array, then every child under a key other than \<open>span\<close>:
  the objects among the items of a child that is an array, or the child itself when it is
  an object. The list of ancestors that the source passes along is not read by the
  handler and is left out.
\<close>

fun walk :: "(jsval \<Rightarrow> 'a \<Rightarrow> 'a) \<Rightarrow> jsval \<Rightarrow> 'a \<Rightarrow> 'a"
  and walk_entries :: "(jsval \<Rightarrow> 'a \<Rightarrow> 'a) \<Rightarrow> (string \<times> jsval) list \<Rightarrow> 'a \<Rightarrow> 'a"
  and walk_elems :: "(jsval \<Rightarrow> 'a \<Rightarrow> 'a) \<Rightarrow> jsval list \<Rightarrow> 'a \<Rightarrow> 'a"
  and walk_child :: "(jsval \<Rightarrow> 'a \<Rightarrow> 'a) \<Rightarrow> jsval \<Rightarrow> 'a \<Rightarrow> 'a"
  and walk_items :: "(jsval \<Rightarrow> 'a \<Rightarrow> 'a) \<Rightarrow> jsval list \<Rightarrow> 'a \<Rightarrow> 'a" where
  "walk h node acc =
     (case node of
        JObj kvs \<Rightarrow> walk_entries h kvs (h node acc)
      | JArr xs \<Rightarrow> walk_elems h xs (h node acc)
      | other \<Rightarrow> acc)"
| "walk_entries h [] acc = acc"
| "walk_entries h ((key, child) # kvs) acc =
     walk_entries h kvs (if key = ''span'' then acc else walk_child h child acc)"
| "walk_elems h [] acc = acc"
| "walk_elems h (child # xs) acc = walk_elems h xs (walk_child h child acc)"
| "walk_child h child acc =
     (case child of
        JArr items \<Rightarrow> walk_items h items acc
      | JObj kvs \<Rightarrow> walk h child acc
      | other \<Rightarrow> acc)"
| "walk_items h [] acc = acc"
| "walk_items h (item # items) acc = walk_items h items (walk h item acc)"

section \<open>The linter: checking the call sites\<close>












section \<open>Linter.wrapError\<close>







section \<open>The extractor: actions and their effects\<close>

text \<open>
  An asynchronous function of the extractor is modelled by what it does: the value it
  resolves to or the value it rejects with (\<open>Inl\<close>), and the list of the effects it has
  had on its collaborators (logger, spinner, visitors, file system), in order. The
  collaborators themselves are functions of an environment record; what they return does
  not depend on the effects before.
\<close>

type_synonym ('ev, 'a) action = "(thrown + 'a) \<times> 'ev list"

definition ok :: "'a \<Rightarrow> ('ev, 'a) action" where
  "ok a = (Inr a, [])"

definition throw :: "thrown \<Rightarrow> ('ev, 'a) action" where
  "throw t = (Inl t, [])"

definition emit :: "'ev \<Rightarrow> ('ev, unit) action" where
  "emit e = (Inr (), [e])"

text \<open>\<open>await\<close> of a call that returns a value, and of one that returns nothing.\<close>

definition await :: "thrown + 'a \<Rightarrow> ('ev, 'a) action" where
  "await r = (r, [])"

definition awaitVoid :: "thrown option \<Rightarrow> ('ev, unit) action" where
  "awaitVoid r = (case r of None \<Rightarrow> (Inr (), []) | Some t \<Rightarrow> (Inl t, []))"

text \<open>Sequencing: a rejection skips the rest, and keeps the effects had so far.\<close>

definition andThen :: "('ev, 'a) action \<Rightarrow> ('a \<Rightarrow> ('ev, 'b) action) \<Rightarrow> ('ev, 'b) action" where
  "andThen m f =
     (case m of
        (Inl t, es) \<Rightarrow> (Inl t, es)
      | (Inr a, es) \<Rightarrow> (case f a of (r, es') \<Rightarrow> (r, es @ es')))"

definition tryCatch :: "('ev, 'a) action \<Rightarrow> (thrown \<Rightarrow> ('ev, 'a) action) \<Rightarrow> ('ev, 'a) action" where
  "tryCatch m handler =
     (case m of
        (Inl t, es) \<Rightarrow> (case handler t of (r, es') \<Rightarrow> (r, es @ es'))
      | (Inr a, es) \<Rightarrow> (Inr a, es))"

record translationResult =
  path :: string
  updated :: bool
  newTranslations :: jsval
  existingTranslations :: jsval

text \<open>
  A plugin with the two hooks the modelled functions call. A hook that is absent is
  \<open>None\<close>; \<open>onLoad\<close> returns the new code, or \<open>None\<close> for \<open>undefined\<close>.
\<close>

record plugin =
  plugin_name :: string
  onLoad :: "(string \<Rightarrow> string \<Rightarrow> thrown + string option) option"
  afterSync :: "(translationResult list \<Rightarrow> config \<Rightarrow> thrown option) option"

record parseOptions =
  parse_syntax :: string
  tsx :: "bool option"
  jsx :: "bool option"
  decorators :: bool
  dynamicImport :: bool
  comments :: bool

text \<open>
  The effects of \<open>processFile\<close>: warnings and information given to the logger (the
  logger has the methods of the interface \<open>Logger\<close>, and they return), the two scope
  accessors set on the plugin context, and the calls to the visitors and to the comment
  parser.
\<close>

datatype fileEvent =
    LoggerWarn string "thrown option"
  | LoggerInfo string
  | BindScopeAccessors
  | SetCurrentFile string string
  | Visit jsval
  | ExtractKeysFromComments string

text \<open>
  Functions of \<open>node:util\<close> and \<open>node:path\<close>. The first argument of \<open>styleText\<close> is the
  list of formats; a single format is the list of that one.
\<close>

record nodeEnv =
  styleText :: "string list \<Rightarrow> string \<Rightarrow> string"
  extname :: "string \<Rightarrow> string"
  dirname :: "string \<Rightarrow> string"

text \<open>
  What \<open>processFile\<close> calls from other modules and packages:
  \<open>readFile\<close>, the parser (\<open>parse\<close> of the package swc), the constructor of
  \<open>ExtractorError\<close>, the span helpers, the visitors' \<open>visit\<close> and
  \<open>extractKeysFromComments\<close>. The last two may throw (\<open>Some\<close>).
\<close>

record fileEnv = nodeEnv +
  readFile :: "string \<Rightarrow> thrown + string"
  swcParse :: "string \<Rightarrow> parseOptions \<Rightarrow> thrown + jsval"
  newExtractorError :: "string \<Rightarrow> string \<Rightarrow> thrown \<Rightarrow> thrown"
  findFirstTokenIndex :: "string \<Rightarrow> int"
  spanStart :: "jsval \<Rightarrow> int"
  normalizeASTSpans :: "jsval \<Rightarrow> int \<Rightarrow> jsval"
  visit :: "string \<Rightarrow> string \<Rightarrow> jsval \<Rightarrow> thrown option"
  extractKeysFromComments :: "string \<Rightarrow> string \<Rightarrow> thrown option"

section \<open>The extractor: processFile\<close>

text \<open>
  The loop over the plugins' \<open>onLoad\<close> hooks, each in its own \<open>try\<close>: the code after
  the loop, and the warnings logged.
\<close>

fun runOnLoadHooks :: "plugin list \<Rightarrow> string \<Rightarrow> string \<Rightarrow> string \<times> fileEvent list" where
  "runOnLoadHooks [] file code = (code, [])"
| "runOnLoadHooks (plugin # plugins) file code =
     (case onLoad plugin of
        None \<Rightarrow> runOnLoadHooks plugins file code
      | Some hook \<Rightarrow>
          (case hook code file of
             Inr (Some result) \<Rightarrow> runOnLoadHooks plugins file result
           | Inr None \<Rightarrow> runOnLoadHooks plugins file code
           | Inl err \<Rightarrow>
               (case runOnLoadHooks plugins file code of
                  (code', es) \<Rightarrow>
                    (code', LoggerWarn (''Plugin '' @ plugin_name plugin @ '' onLoad failed:'') (Some err) # es))))"

text \<open>The first parse and, for \<open>.ts\<close> and \<open>.js\<close> files, the retry with markup syntax on.\<close>

definition parseWithFallback :: "fileEnv \<Rightarrow> string \<Rightarrow> string \<Rightarrow> (fileEvent, jsval) action" where
  "parseWithFallback env file code =
     (let fileExt = toLowerCase (extname env file);
          isTypeScriptFile = (fileExt = ''.ts'' \<or> fileExt = ''.tsx'' \<or> fileExt = ''.mts'' \<or> fileExt = ''.cts'');
          isTSX = (fileExt = ''.tsx'');
          isJSX = (fileExt = ''.jsx'')
      in case swcParse env code
                \<lparr> parse_syntax = (if isTypeScriptFile then ''typescript'' else ''ecmascript''),
                  tsx = Some isTSX, jsx = Some isJSX,
                  decorators = True, dynamicImport = True, comments = True \<rparr> of
           Inr ast \<Rightarrow> ok ast
         | Inl err \<Rightarrow>
             (if fileExt = ''.ts'' \<and> \<not> isTSX then
                (case swcParse env code
                        \<lparr> parse_syntax = ''typescript'', tsx = Some True, jsx = None,
                          decorators = True, dynamicImport = True, comments = True \<rparr> of
                   Inr ast \<Rightarrow>
                     andThen (emit (LoggerInfo (''Parsed '' @ file @ '' using TSX fallback'')))
                       (\<lambda>_. ok ast)
                 | Inl err2 \<Rightarrow> throw (newExtractorError env ''Failed to process file'' file err2))
              else if fileExt = ''.js'' \<and> \<not> isJSX then
                (case swcParse env code
                        \<lparr> parse_syntax = ''ecmascript'', tsx = None, jsx = Some True,
                          decorators = True, dynamicImport = True, comments = True \<rparr> of
                   Inr ast \<Rightarrow>
                     andThen (emit (LoggerInfo (''Parsed '' @ file @ '' using JSX fallback'')))
                       (\<lambda>_. ok ast)
                 | Inl err2 \<Rightarrow> throw (newExtractorError env ''Failed to process file'' file err2))
              else throw (newExtractorError env ''Failed to process file'' file err)))"

text \<open>
  From the normalisation of the spans to the end of the \<open>try\<close> block: the traversal of
  the tree, then the pass over the comments.
\<close>

definition traverse :: "fileEnv \<Rightarrow> config \<Rightarrow> string \<Rightarrow> string \<Rightarrow> jsval \<Rightarrow> (fileEvent, unit) action" where
  "traverse env cfg file code ast =
     (let firstTokenIdx = findFirstTokenIndex env code;
          spanBase = spanStart env ast - firstTokenIdx;
          ast' = normalizeASTSpans env ast spanBase
      in andThen (emit BindScopeAccessors) (\<lambda>_.
         andThen (emit (SetCurrentFile file code)) (\<lambda>_.
         andThen (emit (Visit ast')) (\<lambda>_.
         andThen (awaitVoid (visit env file code ast')) (\<lambda>_.
         if extractFromComments (extract_cfg cfg) \<noteq> Some False
         then andThen (emit (ExtractKeysFromComments code)) (\<lambda>_.
                awaitVoid (extractKeysFromComments env file code))
         else ok ())))))"

text \<open>The \<open>try\<close> block of \<open>processFile\<close>.\<close>

definition processFileBody :: "fileEnv \<Rightarrow> string \<Rightarrow> plugin list \<Rightarrow> config \<Rightarrow> (fileEvent, unit) action" where
  "processFileBody env file plugins cfg =
     andThen (await (readFile env file)) (\<lambda>code0.
     andThen (case runOnLoadHooks plugins file code0 of (code, es) \<Rightarrow> (Inr code, es)) (\<lambda>code.
     andThen (parseWithFallback env file code) (\<lambda>ast.
     traverse env cfg file code ast)))"

text \<open>The \<open>catch\<close> block: the message \<open>msg\<close>, the optional warning with the stack.\<close>

fun errorText :: "thrown \<Rightarrow> string" where
  "errorText (ErrorObj e) =
     (if length (trim (message e)) > 0 then message e
      else if String_of (ErrorObj e) \<noteq> [] then String_of (ErrorObj e)
      else ''Unknown error'')"
| "errorText (ThrownString s) = (if s \<noteq> [] then s else ''Unknown error'')"
| "errorText ThrownNull = ''Unknown error''"
| "errorText ThrownUndefined = ''Unknown error''"
| "errorText (ThrownOther r) = (if r \<noteq> [] then r else ''Unknown error'')"

fun stackWarning :: "thrown \<Rightarrow> fileEvent list" where
  "stackWarning (ErrorObj e) =
     (case stack e of
        Some s \<Rightarrow> (if trim (message e) = [] \<and> s \<noteq> [] then [LoggerWarn (''  '' @ s) None] else [])
      | None \<Rightarrow> [])"
| "stackWarning other = []"

definition skipFile :: "fileEnv \<Rightarrow> string \<Rightarrow> thrown \<Rightarrow> fileEvent list" where
  "skipFile env file err =
     [LoggerWarn (styleText env [''yellow''] ''Skipping file due to error:'' @ '' '' @ file) None,
      LoggerWarn (''  '' @ errorText err) None]
     @ stackWarning err"

text \<open>
  \<open>processFile\<close>: its outcome and effects, and the array \<open>fileErrors\<close> afterwards
  (\<open>None\<close> when the caller passed none).
\<close>

definition processFile ::
  "fileEnv \<Rightarrow> string \<Rightarrow> plugin list \<Rightarrow> config \<Rightarrow> string list option
     \<Rightarrow> (fileEvent, unit) action \<times> string list option" where
  "processFile env file plugins cfg fileErrors =
     (case processFileBody env file plugins cfg of
        (Inr u, es) \<Rightarrow> ((Inr u, es), fileErrors)
      | (Inl err, es) \<Rightarrow>
          ((Inr (), es @ skipFile env file err), map_option (\<lambda>errors. errors @ [file]) fileErrors))"

section \<open>The extractor: runExtractor\<close>

record runOptions =
  isWatchMode :: "bool option"
  isDryRun :: "bool option"
  syncPrimaryWithDefaults :: "bool option"
  syncAll :: "bool option"
  quiet :: "bool option"

text \<open>
  The effects of \<open>runExtractor\<close>: on the spinner, on the logger, the calls of the two
  stages \<open>findKeys\<close> and \<open>getTranslations\<close> and of the plugins' \<open>afterSync\<close> hooks, the
  directories made and the files written, and the record that the tip was shown.
\<close>

datatype runEvent =
    SpinnerCreate string bool
  | SpinnerText string
  | SpinnerSucceed string
  | SpinnerFail string
  | FindKeys
  | GetTranslations
  | Mkdir string
  | WriteFile string string
  | LogInfo string
  | AfterSync string
  | RecordFunnelShown string

text \<open>
  What \<open>runExtractor\<close> calls from other modules. \<open>'keys\<close> is the pair of \<open>allKeys\<close> and
  \<open>objectKeys\<close> that \<open>findKeys\<close> returns, \<open>keysSize\<close> is \<open>allKeys.size\<close>; beside the
  keys, \<open>findKeys\<close> gives the paths it has pushed onto the array \<open>fileErrors\<close>.
  \<open>lightBulb\<close> is the emoji at the head of the tip.
\<close>

record 'keys runEnv = nodeEnv +
  validateExtractorConfig :: "config \<Rightarrow> thrown option"
  findKeys :: "config \<Rightarrow> thrown + ('keys \<times> string list)"
  keysSize :: "'keys \<Rightarrow> nat"
  getTranslations ::
    "'keys \<Rightarrow> config \<Rightarrow> bool option \<Rightarrow> bool option \<Rightarrow> thrown + translationResult list"
  inferFormatFromPath :: "string \<Rightarrow> string"
  loadRawJson5Content :: "string \<Rightarrow> thrown + string option"
  serializeTranslationFile ::
    "jsval \<Rightarrow> string \<Rightarrow> indentation option \<Rightarrow> string option \<Rightarrow> thrown + string"
  mkdir :: "string \<Rightarrow> thrown option"
  writeFile :: "string \<Rightarrow> string \<Rightarrow> thrown option"
  shouldShowFunnel :: "string \<Rightarrow> thrown + bool"
  recordFunnelShown :: "string \<Rightarrow> thrown option"
  lightBulb :: string

text \<open>The four assignments \<open>||=\<close> at the head of \<open>runExtractor\<close>.\<close>

definition applyDefaults :: "config \<Rightarrow> config" where
  "applyDefaults cfg =
     (let ex = extract_cfg cfg;
          fallback = (case locales cfg of l0 # ls \<Rightarrow> (if l0 \<noteq> [] then l0 else ''en'') | [] \<Rightarrow> ''en'');
          primary =
            (case primaryLanguage ex of
               Some l \<Rightarrow> (if l \<noteq> [] then l else fallback)
             | None \<Rightarrow> fallback);
          secondary =
            (case secondaryLanguages ex of
               Some ls \<Rightarrow> ls
             | None \<Rightarrow> filter (\<lambda>l. l \<noteq> primary) (locales cfg));
          fns = (case functionPatterns ex of Some fs \<Rightarrow> fs | None \<Rightarrow> [''t'', ''*.t'']);
          comps = (case transComponents ex of Some cs \<Rightarrow> cs | None \<Rightarrow> [''Trans''])
      in cfg \<lparr> extract_cfg := ex \<lparr> primaryLanguage := Some primary,
                                     secondaryLanguages := Some secondary,
                                     functionPatterns := Some fns,
                                     transComponents := Some comps \<rparr> \<rparr>)"

text \<open>\<open>config.extract.outputFormat ?? inferFormatFromPath(result.path)\<close>.\<close>

definition effectiveFormatOf :: "'keys runEnv \<Rightarrow> config \<Rightarrow> translationResult \<Rightarrow> string" where
  "effectiveFormatOf env cfg result =
     (case outputFormat (extract_cfg cfg) of
        Some format \<Rightarrow> format
      | None \<Rightarrow> inferFormatFromPath env (path result))"

text \<open>What the loop does for an updated result when the run is not a dry run.\<close>

definition writeTranslationFile ::
  "'keys runEnv \<Rightarrow> config \<Rightarrow> translationResult \<Rightarrow> (runEvent, unit) action" where
  "writeTranslationFile env cfg result =
     (let effectiveFormat = effectiveFormatOf env cfg result
      in andThen (if effectiveFormat = ''json5'' then await (loadRawJson5Content env (path result))
                  else ok None) (\<lambda>rawContent.
         andThen (await (serializeTranslationFile env (newTranslations result) effectiveFormat
                           (indentation (extract_cfg cfg)) rawContent)) (\<lambda>fileContent.
         andThen (emit (Mkdir (dirname env (path result)))) (\<lambda>_.
         andThen (awaitVoid (mkdir env (dirname env (path result)))) (\<lambda>_.
         andThen (emit (WriteFile (path result) fileContent)) (\<lambda>_.
         andThen (awaitVoid (writeFile env (path result) fileContent)) (\<lambda>_.
         emit (LogInfo (styleText env [''green''] (''Updated: '' @ path result))))))))))"

text \<open>The loop over \<open>results\<close>, with its variable \<open>anyFileUpdated\<close>.\<close>

fun writeResults ::
  "'keys runEnv \<Rightarrow> config \<Rightarrow> runOptions \<Rightarrow> translationResult list \<Rightarrow> bool \<Rightarrow> (runEvent, bool) action" where
  "writeResults env cfg opts [] anyFileUpdated = ok anyFileUpdated"
| "writeResults env cfg opts (result # results) anyFileUpdated =
     (if updated result then
        (if isDryRun opts \<noteq> Some True then
           andThen (writeTranslationFile env cfg result) (\<lambda>_. writeResults env cfg opts results True)
         else writeResults env cfg opts results True)
      else writeResults env cfg opts results anyFileUpdated)"

text \<open>The loop over the plugins' \<open>afterSync\<close> hooks.\<close>

fun runAfterSync :: "plugin list \<Rightarrow> translationResult list \<Rightarrow> config \<Rightarrow> (runEvent, unit) action" where
  "runAfterSync [] results cfg = ok ()"
| "runAfterSync (plugin # plugins) results cfg =
     (case afterSync plugin of
        None \<Rightarrow> runAfterSync plugins results cfg
      | Some hook \<Rightarrow>
          andThen (emit (AfterSync (plugin_name plugin))) (\<lambda>_.
          andThen (awaitVoid (hook results cfg)) (\<lambda>_.
          runAfterSync plugins results cfg)))"

definition completionMessage :: "'keys runEnv \<Rightarrow> string list \<Rightarrow> string" where
  "completionMessage env fileErrors =
     (if length fileErrors > 0
      then styleText env [''bold'']
             (''Extraction complete, but ignored '' @ string_of_nat (length fileErrors) @ '' file''
              @ (if length fileErrors = 1 then [] else ''s'') @ ''!'')
      else styleText env [''bold''] ''Extraction complete!'')"

definition printLocizeFunnel :: "'keys runEnv \<Rightarrow> (runEvent, unit) action" where
  "printLocizeFunnel env =
     andThen (await (shouldShowFunnel env ''extract'')) (\<lambda>shouldShow.
       if \<not> shouldShow then ok ()
       else
         andThen (emit (LogInfo (styleText env [''yellow'', ''bold'']
                    ([CHR 0x0A] @ lightBulb env @ '' Tip: Tired of running the extractor manually?'')))) (\<lambda>_.
         andThen (emit (LogInfo (''   Discover a real-time '' @ quoteMark @ ''push'' @ quoteMark
                    @ '' workflow with `saveMissing` and Locize AI,''))) (\<lambda>_.
         andThen (emit (LogInfo ''   where keys are created and translated automatically as you code.'')) (\<lambda>_.
         andThen (emit (LogInfo (''   Learn more: ''
                    @ styleText env [''cyan''] ''https://www.locize.com/blog/i18next-savemissing-ai-automation''))) (\<lambda>_.
         andThen (emit (LogInfo (''   Watch the video: ''
                    @ styleText env [''cyan''] ''https://youtu.be/joPsZghT3wM''))) (\<lambda>_.
         andThen (emit (RecordFunnelShown ''extract'')) (\<lambda>_.
         awaitVoid (recordFunnelShown env ''extract''))))))))"

text \<open>The \<open>try\<close> block of \<open>runExtractor\<close>; it resolves to \<open>(anyFileUpdated, hasErrors)\<close>.\<close>

definition extraction ::
  "'keys runEnv \<Rightarrow> config \<Rightarrow> plugin list \<Rightarrow> runOptions \<Rightarrow> (runEvent, bool \<times> bool) action" where
  "extraction env cfg plugins opts =
     andThen (emit FindKeys) (\<lambda>_.
     andThen (await (findKeys env cfg)) (\<lambda>(keys, fileErrors).
     andThen (emit (SpinnerText (''Found '' @ string_of_nat (keysSize env keys)
                @ '' unique keys. Updating translation files...''))) (\<lambda>_.
     andThen (emit GetTranslations) (\<lambda>_.
     andThen (await (getTranslations env keys cfg (syncPrimaryWithDefaults opts) (syncAll opts))) (\<lambda>results.
     andThen (writeResults env cfg opts results False) (\<lambda>anyFileUpdated.
     andThen (if length plugins > 0
              then andThen (emit (SpinnerText ''Running post-extraction plugins...'')) (\<lambda>_.
                     runAfterSync plugins results cfg)
              else ok ()) (\<lambda>_.
     andThen (emit (SpinnerSucceed (completionMessage env fileErrors))) (\<lambda>_.
     andThen (if anyFileUpdated then printLocizeFunnel env else ok ()) (\<lambda>_.
     ok (anyFileUpdated, length fileErrors > 0))))))))))"

text \<open>
  \<open>runExtractor\<close>: the defaults, the validation of the configuration, the spinner, then
  the \<open>try\<close> block; its \<open>catch\<close> block fails the spinner and throws the error again.
\<close>

definition runExtractor ::
  "'keys runEnv \<Rightarrow> config \<Rightarrow> plugin list option \<Rightarrow> runOptions \<Rightarrow> (runEvent, bool \<times> bool) action" where
  "runExtractor env config plugins0 opts =
     (let cfg = applyDefaults config
      in andThen (awaitVoid (validateExtractorConfig env cfg)) (\<lambda>_.
         let plugins = (case plugins0 of Some ps \<Rightarrow> ps | None \<Rightarrow> [])
         in andThen (emit (SpinnerCreate (''Running i18next key extractor...'' @ [CHR 0x0A])
                            (quiet opts = Some True))) (\<lambda>_.
            tryCatch (extraction env cfg plugins opts) (\<lambda>error.
              andThen (emit (SpinnerFail (styleText env [''red''] ''Extraction failed.''))) (\<lambda>_.
              throw error)))))"

section \<open>Predicates on effects\<close>

text \<open>Every effect of an action satisfies \<open>P\<close>.\<close>

definition allEvents :: "('ev \<Rightarrow> bool) \<Rightarrow> ('ev, 'a) action \<Rightarrow> bool" where
  "allEvents P m = (\<forall>e \<in> set (snd m). P e)"

text \<open>The two effects of \<open>processFile\<close> on the visitors and the comment parser.\<close>

definition isTraversalEvent :: "fileEvent \<Rightarrow> bool" where
  "isTraversalEvent e = (case e of Visit a \<Rightarrow> True | ExtractKeysFromComments c \<Rightarrow> True | other \<Rightarrow> False)"

text \<open>The two effects of \<open>runExtractor\<close> on the file system.\<close>

definition isFileWrite :: "runEvent \<Rightarrow> bool" where
  "isFileWrite e = (case e of Mkdir d \<Rightarrow> True | WriteFile p c \<Rightarrow> True | other \<Rightarrow> False)"

section \<open>Lemmas on actions\<close>

lemma andThen_Inr: "andThen (Inr a, es) f = (fst (f a), es @ snd (f a))"
  by (simp add: andThen_def split: prod.splits)

lemma andThen_Inl: "andThen (Inl t, es) f = (Inl t, es)"
  by (simp add: andThen_def)

lemma andThen_emit: "andThen (emit e) f = (fst (f ()), e # snd (f ()))"
  by (simp add: emit_def andThen_Inr)

lemma andThen_ok: "andThen (ok a) f = f a"
  by (simp add: ok_def andThen_Inr)

lemma andThen_await_Inr: "andThen (await (Inr a)) f = f a"
  by (simp add: await_def andThen_Inr)

lemma andThen_await_Inl: "andThen (await (Inl t)) f = (Inl t, [])"
  by (simp add: await_def andThen_Inl)

lemma andThen_awaitVoid_None: "andThen (awaitVoid None) f = f ()"
  by (simp add: awaitVoid_def andThen_Inr)

lemma andThen_awaitVoid_Some: "andThen (awaitVoid (Some t)) f = (Inl t, [])"
  by (simp add: awaitVoid_def andThen_Inl)

lemmas action_defs = ok_def emit_def await_def awaitVoid_def throw_def

lemmas andThen_simps = andThen_emit andThen_ok andThen_await_Inr andThen_await_Inl
  andThen_awaitVoid_None andThen_awaitVoid_Some

lemma snd_andThen: "snd (andThen m f) = snd m @ (case fst m of Inl t \<Rightarrow> [] | Inr a \<Rightarrow> snd (f a))"
  by (cases m) (auto simp: andThen_def split: sum.splits prod.splits)

lemma tryCatch_Inr: "tryCatch (Inr a, es) h = (Inr a, es)"
  by (simp add: tryCatch_def)

lemma tryCatch_Inl: "tryCatch (Inl t, es) h = (fst (h t), es @ snd (h t))"
  by (simp add: tryCatch_def split: prod.splits)

lemma fst_andThen_Inr:
  "fst (andThen m f) = Inr b \<Longrightarrow> \<exists>a. fst m = Inr a \<and> fst (f a) = Inr b"
  by (cases m) (auto simp: andThen_def split_def split: sum.splits)

lemma fst_tryCatch_rethrow:
  "fst (tryCatch m (\<lambda>t. andThen (emit e) (\<lambda>_. throw t))) = Inr b \<Longrightarrow> fst m = Inr b"
  by (cases m) (auto simp: tryCatch_def andThen_emit throw_def split: sum.splits)

lemma events_andThen_left: "set (snd m) \<subseteq> set (snd (andThen m f))"
  by (cases m) (auto simp: andThen_def split_def split: sum.splits)

lemma events_tryCatch_left: "set (snd m) \<subseteq> set (snd (tryCatch m h))"
  by (cases m) (auto simp: tryCatch_def split_def split: sum.splits)

lemma allEvents_ok [intro!, simp]: "allEvents P (ok a)"
  and allEvents_throw [intro!, simp]: "allEvents P (throw t)"
  and allEvents_await [intro!, simp]: "allEvents P (await r)"
  and allEvents_awaitVoid [intro!, simp]: "allEvents P (awaitVoid v)"
  by (simp_all add: allEvents_def action_defs split: option.splits)

lemma allEvents_emit [simp]: "allEvents P (emit e) = P e"
  by (simp add: allEvents_def emit_def)

lemma allEvents_andThen [intro!]:
  "allEvents P m \<Longrightarrow> (\<And>a. allEvents P (f a)) \<Longrightarrow> allEvents P (andThen m f)"
  by (cases m) (auto simp: allEvents_def andThen_def split_def split: sum.splits)

lemma allEvents_tryCatch [intro!]:
  "allEvents P m \<Longrightarrow> (\<And>t. allEvents P (h t)) \<Longrightarrow> allEvents P (tryCatch m h)"
  by (cases m) (auto simp: allEvents_def tryCatch_def split_def split: sum.splits)

lemma allEvents_if [intro!]:
  "(c \<Longrightarrow> allEvents P m) \<Longrightarrow> (\<not> c \<Longrightarrow> allEvents P n) \<Longrightarrow> allEvents P (if c then m else n)"
  by simp

lemma allEvents_case_prod [intro!]:
  "(\<And>a b. allEvents P (f a b)) \<Longrightarrow> allEvents P (case p of (a, b) \<Rightarrow> f a b)"
  by (cases p) simp

section \<open>processFile: a file that cannot be parsed is skipped\<close>


lemma hooks_no_traversal: "filter isTraversalEvent (snd (runOnLoadHooks ps file code)) = []"
  by (induction ps arbitrary: code)
     (auto simp: isTraversalEvent_def split_def split: option.splits sum.splits)

lemma parse_no_traversal: "filter isTraversalEvent (snd (parseWithFallback env file code)) = []"
  by (auto simp: parseWithFallback_def Let_def ok_def throw_def andThen_emit isTraversalEvent_def
           split: sum.splits)

lemma skipFile_no_traversal: "filter isTraversalEvent (skipFile env file err) = []"
  by (cases err) (auto simp: skipFile_def isTraversalEvent_def split: option.splits)

lemma processFile_resolves: "fst (fst (processFile env file plugins cfg fileErrors)) = Inr ()"
  by (auto simp: processFile_def split: prod.splits sum.splits)

lemma parseWithFallback_rejects:
  assumes "fst (parseWithFallback env file code) = Inl err"
  shows "snd (parseWithFallback env file code) = []
       \<and> (\<exists>cause. err = newExtractorError env ''Failed to process file'' file cause)"
proof -
  define fileExt where "fileExt = toLowerCase (extname env file)"
  define first where "first = swcParse env code
      \<lparr> parse_syntax = (if fileExt = ''.ts'' \<or> fileExt = ''.tsx'' \<or> fileExt = ''.mts'' \<or> fileExt = ''.cts''
                         then ''typescript'' else ''ecmascript''),
        tsx = Some (fileExt = ''.tsx''), jsx = Some (fileExt = ''.jsx''),
        decorators = True, dynamicImport = True, comments = True \<rparr>"
  define retryTs where "retryTs = swcParse env code
      \<lparr> parse_syntax = ''typescript'', tsx = Some True, jsx = None,
        decorators = True, dynamicImport = True, comments = True \<rparr>"
  define retryJs where "retryJs = swcParse env code
      \<lparr> parse_syntax = ''ecmascript'', tsx = None, jsx = Some True,
        decorators = True, dynamicImport = True, comments = True \<rparr>"
  have unfolded: "parseWithFallback env file code =
     (case first of
        Inr ast \<Rightarrow> ok ast
      | Inl err \<Rightarrow>
          (if fileExt = ''.ts'' \<and> \<not> fileExt = ''.tsx'' then
             (case retryTs of
                Inr ast \<Rightarrow>
                  andThen (emit (LoggerInfo (''Parsed '' @ file @ '' using TSX fallback''))) (\<lambda>_. ok ast)
              | Inl err2 \<Rightarrow> throw (newExtractorError env ''Failed to process file'' file err2))
           else if fileExt = ''.js'' \<and> \<not> fileExt = ''.jsx'' then
             (case retryJs of
                Inr ast \<Rightarrow>
                  andThen (emit (LoggerInfo (''Parsed '' @ file @ '' using JSX fallback''))) (\<lambda>_. ok ast)
              | Inl err2 \<Rightarrow> throw (newExtractorError env ''Failed to process file'' file err2))
           else throw (newExtractorError env ''Failed to process file'' file err)))"
    unfolding parseWithFallback_def Let_def fileExt_def first_def retryTs_def retryJs_def ..
  show ?thesis
    using assms unfolding unfolded
    by (cases first; cases retryTs; cases retryJs)
       (auto simp: action_defs andThen_Inr split: if_splits)
qed

text \<open>
  C1: when the file is read and parsing its code fails, the retry with markup syntax
  for a \<open>.ts\<close> or \<open>.js\<close> file included, \<open>processFile\<close> resolves: after the effects of
  the \<open>onLoad\<close> hooks it only logs the warnings of the \<open>catch\<close> block, the first of
  which says that the file is skipped, it never reaches the visitors, and the path of the
  file is appended to \<open>fileErrors\<close> (when the caller passed that array). The error
  logged is the \<open>ExtractorError\<close> made for the failed parse.
\<close>

theorem parse_failure_skips_file:
  assumes "readFile env file = Inr code0"
    and "fst (parseWithFallback env file (fst (runOnLoadHooks plugins file code0))) = Inl err"
  shows "processFile env file plugins cfg fileErrors =
           ((Inr (), snd (runOnLoadHooks plugins file code0) @ skipFile env file err),
            map_option (\<lambda>errors. errors @ [file]) fileErrors)
       \<and> (\<exists>cause. err = newExtractorError env ''Failed to process file'' file cause)"
proof -
  obtain code es where h: "runOnLoadHooks plugins file code0 = (code, es)"
    by (cases "runOnLoadHooks plugins file code0")
  with assms(2) have f: "fst (parseWithFallback env file code) = Inl err" by simp
  from parseWithFallback_rejects [OF f] have
    p: "parseWithFallback env file code = (Inl err, [])"
    and c: "\<exists>cause. err = newExtractorError env ''Failed to process file'' file cause"
    using f by (auto simp: prod_eq_iff)
  have "processFileBody env file plugins cfg = (Inl err, es)"
    by (simp add: processFileBody_def assms(1) h p andThen_await_Inr andThen_Inr andThen_Inl)
  with c show ?thesis
    by (auto simp: processFile_def h)
qed

theorem parse_failure_skips_file_witness:
  "fst (parseWithFallback
      (\<lparr> styleText = (\<lambda>fmt s. s), extname = (\<lambda>f. ''.ts''), dirname = (\<lambda>p. ''locales''),
        readFile = (\<lambda>f. Inr ''t(''),
        swcParse = (\<lambda>c opts. Inl (ErrorObj \<lparr> error_name = ''Error'', message = ''Unexpected token'', stack = None \<rparr>)),
        newExtractorError = (\<lambda>msg f cause.
          ErrorObj \<lparr> error_name = ''ExtractorError'', message = msg @ '' in file '' @ f, stack = None \<rparr>),
        findFirstTokenIndex = (\<lambda>c. 0), spanStart = (\<lambda>a. 1), normalizeASTSpans = (\<lambda>a base. a),
        visit = (\<lambda>f c a. None),
        extractKeysFromComments = (\<lambda>f c. None) \<rparr>)
      ''a.ts'' ''t('')
     = Inl (ErrorObj \<lparr> error_name = ''ExtractorError'', message = ''Failed to process file in file a.ts'', stack = None \<rparr>)
   \<and> processFile
      (\<lparr> styleText = (\<lambda>fmt s. s), extname = (\<lambda>f. ''.ts''), dirname = (\<lambda>p. ''locales''),
        readFile = (\<lambda>f. Inr ''t(''),
        swcParse = (\<lambda>c opts. Inl (ErrorObj \<lparr> error_name = ''Error'', message = ''Unexpected token'', stack = None \<rparr>)),
        newExtractorError = (\<lambda>msg f cause.
          ErrorObj \<lparr> error_name = ''ExtractorError'', message = msg @ '' in file '' @ f, stack = None \<rparr>),
        findFirstTokenIndex = (\<lambda>c. 0), spanStart = (\<lambda>a. 1), normalizeASTSpans = (\<lambda>a base. a),
        visit = (\<lambda>f c a. None),
        extractKeysFromComments = (\<lambda>f c. None) \<rparr>)
      ''a.ts'' []
      (\<lparr> locales = [''en''],
        extract_cfg = \<lparr> primaryLanguage = None, secondaryLanguages = None,
          functionPatterns = None, transComponents = None, outputFormat = None,
          indentation = None, extractFromComments = None,
          interpolationPrefix = None, interpolationSuffix = None \<rparr>,
        lint_cfg = None \<rparr>)
      (Some [])
     = ((Inr (), [LoggerWarn ''Skipping file due to error: a.ts'' None,
                  LoggerWarn ''  Failed to process file in file a.ts'' None]),
        Some [''a.ts''])"
proof -
  have t: "trim ''Failed to process file in file a.ts'' \<noteq> []"
    by code_simp
  have p: "fst (parseWithFallback
      (\<lparr> styleText = (\<lambda>fmt s. s), extname = (\<lambda>f. ''.ts''), dirname = (\<lambda>p. ''locales''),
        readFile = (\<lambda>f. Inr ''t(''),
        swcParse = (\<lambda>c opts. Inl (ErrorObj \<lparr> error_name = ''Error'', message = ''Unexpected token'', stack = None \<rparr>)),
        newExtractorError = (\<lambda>msg f cause.
          ErrorObj \<lparr> error_name = ''ExtractorError'', message = msg @ '' in file '' @ f, stack = None \<rparr>),
        findFirstTokenIndex = (\<lambda>c. 0), spanStart = (\<lambda>a. 1), normalizeASTSpans = (\<lambda>a base. a),
        visit = (\<lambda>f c a. None),
        extractKeysFromComments = (\<lambda>f c. None) \<rparr>)
      ''a.ts'' ''t('')
     = Inl (ErrorObj \<lparr> error_name = ''ExtractorError'', message = ''Failed to process file in file a.ts'', stack = None \<rparr>)"
    by code_simp
  show ?thesis
    using p parse_failure_skips_file
      [of "\<lparr> styleText = (\<lambda>fmt s. s), extname = (\<lambda>f. ''.ts''), dirname = (\<lambda>p. ''locales''),
        readFile = (\<lambda>f. Inr ''t(''),
        swcParse = (\<lambda>c opts. Inl (ErrorObj \<lparr> error_name = ''Error'', message = ''Unexpected token'', stack = None \<rparr>)),
        newExtractorError = (\<lambda>msg f cause.
          ErrorObj \<lparr> error_name = ''ExtractorError'', message = msg @ '' in file '' @ f, stack = None \<rparr>),
        findFirstTokenIndex = (\<lambda>c. 0), spanStart = (\<lambda>a. 1), normalizeASTSpans = (\<lambda>a base. a),
        visit = (\<lambda>f c a. None),
        extractKeysFromComments = (\<lambda>f c. None) \<rparr>" "''a.ts''" "''t(''" "[]"
          "ErrorObj \<lparr> error_name = ''ExtractorError'', message = ''Failed to process file in file a.ts'', stack = None \<rparr>"
          "\<lparr> locales = [''en''],
        extract_cfg = \<lparr> primaryLanguage = None, secondaryLanguages = None,
          functionPatterns = None, transComponents = None, outputFormat = None,
          indentation = None, extractFromComments = None,
          interpolationPrefix = None, interpolationSuffix = None \<rparr>,
        lint_cfg = None \<rparr>" "Some []"]
    by (simp add: skipFile_def t)
qed

section \<open>processFile: a failing onLoad hook\<close>



section \<open>processFile: the comments are scanned after the traversal\<close>

lemma traverse_events:
  "filter isTraversalEvent (snd (traverse env cfg file code ast)) =
     Visit (normalizeASTSpans env ast (spanStart env ast - findFirstTokenIndex env code))
     # (if visit env file code (normalizeASTSpans env ast (spanStart env ast - findFirstTokenIndex env code)) = None
           \<and> extractFromComments (extract_cfg cfg) \<noteq> Some False
        then [ExtractKeysFromComments code] else [])"
  by (cases "visit env file code (normalizeASTSpans env ast (spanStart env ast - findFirstTokenIndex env code))";
      cases "extractKeysFromComments env file code")
     (simp_all add: traverse_def Let_def isTraversalEvent_def ok_def emit_def awaitVoid_def andThen_Inr andThen_Inl)

lemma body_events:
  "filter isTraversalEvent (snd (processFileBody env file plugins cfg)) = [] \<or>
   (\<exists>ast code. filter isTraversalEvent (snd (processFileBody env file plugins cfg))
       = Visit ast # (if visit env file code ast = None
                         \<and> extractFromComments (extract_cfg cfg) \<noteq> Some False
                      then [ExtractKeysFromComments code] else []))"
proof (cases "readFile env file")
  case (Inl t)
  then show ?thesis by (simp add: processFileBody_def andThen_simps)
next
  case (Inr code0)
  obtain code es where h: "runOnLoadHooks plugins file code0 = (code, es)"
    by (cases "runOnLoadHooks plugins file code0")
  have es: "filter isTraversalEvent es = []"
    using hooks_no_traversal [of plugins "file" code0] h by simp
  show ?thesis
  proof (cases "parseWithFallback env file code")
    case (Pair r ps)
    have ps: "filter isTraversalEvent ps = []"
      using parse_no_traversal [of env "file" code] Pair by simp
    show ?thesis
    proof (cases r)
      case (Inl t)
      with Inr h Pair es ps show ?thesis
        by (simp add: processFileBody_def andThen_simps andThen_Inr andThen_Inl)
    next
      case r: (Inr ast)
      with Inr h Pair es ps show ?thesis
        by (simp only: processFileBody_def andThen_simps andThen_Inr andThen_Inl
              prod.case fst_conv snd_conv filter_append traverse_events append_Nil) blast
    qed
  qed
qed

text \<open>
  C6: among the effects of \<open>processFile\<close>, the calls of \<open>visit\<close> and of
  \<open>extractKeysFromComments\<close> are, in order: none; or one \<open>visit\<close>; or one \<open>visit\<close>
  followed by one \<open>extractKeysFromComments\<close>, and then \<open>visit\<close> has returned without
  throwing and \<open>config.extract.extractFromComments\<close> is not \<open>false\<close>. So the comments are
  scanned at most once for a file, never before its traversal has completed, and only
  when the option is not set to \<open>false\<close>.
\<close>

theorem comments_after_traversal:
  "filter isTraversalEvent (snd (fst (processFile env file plugins cfg fileErrors))) = [] \<or>
   (\<exists>ast. filter isTraversalEvent (snd (fst (processFile env file plugins cfg fileErrors)))
            = [Visit ast]) \<or>
   (\<exists>ast code. filter isTraversalEvent (snd (fst (processFile env file plugins cfg fileErrors)))
            = [Visit ast, ExtractKeysFromComments code]
          \<and> visit env file code ast = None
          \<and> extractFromComments (extract_cfg cfg) \<noteq> Some False)"
proof -
  have eq: "filter isTraversalEvent (snd (fst (processFile env file plugins cfg fileErrors)))
      = filter isTraversalEvent (snd (processFileBody env file plugins cfg))"
    by (auto simp: processFile_def skipFile_no_traversal split: prod.splits sum.splits)
  from body_events [of env "file" plugins cfg] show ?thesis
    unfolding eq by (auto split: if_splits)
qed

theorem comments_after_traversal_witness:
  "filter isTraversalEvent (snd (fst (processFile
      (\<lparr> styleText = (\<lambda>fmt s. s), extname = (\<lambda>f. ''.ts''), dirname = (\<lambda>p. ''locales''),
        readFile = (\<lambda>f. Inr ''t(1)''),
        swcParse = (\<lambda>c opts. Inr (JObj [(''type'', JStr ''Module''), (''body'', JArr [])])),
        newExtractorError = (\<lambda>msg f cause.
          ErrorObj \<lparr> error_name = ''ExtractorError'', message = msg @ '' in file '' @ f, stack = None \<rparr>),
        findFirstTokenIndex = (\<lambda>c. 0), spanStart = (\<lambda>a. 1), normalizeASTSpans = (\<lambda>a base. a),
        visit = (\<lambda>f c a. None),
        extractKeysFromComments = (\<lambda>f c. None) \<rparr>)
      ''a.ts'' []
      (\<lparr> locales = [''en''],
        extract_cfg = \<lparr> primaryLanguage = None, secondaryLanguages = None,
          functionPatterns = None, transComponents = None, outputFormat = None,
          indentation = None, extractFromComments = None,
          interpolationPrefix = None, interpolationSuffix = None \<rparr>,
        lint_cfg = None \<rparr>)
      None)))
     = [Visit (JObj [(''type'', JStr ''Module''), (''body'', JArr [])]), ExtractKeysFromComments ''t(1)'']"
  using comments_after_traversal
      [of "\<lparr> styleText = (\<lambda>fmt s. s), extname = (\<lambda>f. ''.ts''), dirname = (\<lambda>p. ''locales''),
        readFile = (\<lambda>f. Inr ''t(1)''),
        swcParse = (\<lambda>c opts. Inr (JObj [(''type'', JStr ''Module''), (''body'', JArr [])])),
        newExtractorError = (\<lambda>msg f cause.
          ErrorObj \<lparr> error_name = ''ExtractorError'', message = msg @ '' in file '' @ f, stack = None \<rparr>),
        findFirstTokenIndex = (\<lambda>c. 0), spanStart = (\<lambda>a. 1), normalizeASTSpans = (\<lambda>a base. a),
        visit = (\<lambda>f c a. None),
        extractKeysFromComments = (\<lambda>f c. None) \<rparr>" "''a.ts''" "[]"
          "\<lparr> locales = [''en''],
        extract_cfg = \<lparr> primaryLanguage = None, secondaryLanguages = None,
          functionPatterns = None, transComponents = None, outputFormat = None,
          indentation = None, extractFromComments = None,
          interpolationPrefix = None, interpolationSuffix = None \<rparr>,
        lint_cfg = None \<rparr>" None]
  by (simp add: processFile_def processFileBody_def parseWithFallback_def traverse_def
        action_defs andThen_Inr isTraversalEvent_def)

section \<open>runExtractor: effects of the stages\<close>

lemma applyDefaults_keeps [simp]:
  "outputFormat (extract_cfg (applyDefaults cfg)) = outputFormat (extract_cfg cfg)"
  "indentation (extract_cfg (applyDefaults cfg)) = indentation (extract_cfg cfg)"
  by (simp_all add: applyDefaults_def Let_def)

lemma runAfterSync_events: "(\<And>n. P (AfterSync n)) \<Longrightarrow> allEvents P (runAfterSync plugins results cfg)"
  by (induction plugins) (auto split: option.splits)

lemma printLocizeFunnel_events:
  "(\<And>s. P (LogInfo s)) \<Longrightarrow> (\<And>s. P (RecordFunnelShown s)) \<Longrightarrow> allEvents P (printLocizeFunnel env)"
  unfolding printLocizeFunnel_def by (intro allEvents_andThen allEvents_if allEvents_await allEvents_ok allEvents_awaitVoid) simp_all

lemma writeResults_dry_events:
  "isDryRun opts = Some True \<Longrightarrow> allEvents P (writeResults env cfg opts results a)"
  by (induction results arbitrary: a) auto

lemma writeTranslationFile_events:
  assumes "\<And>d. P (Mkdir d)" "\<And>s. P (LogInfo s)"
    and "\<And>raw c. serializeTranslationFile env (newTranslations result) (effectiveFormatOf env cfg result)
                    (indentation (extract_cfg cfg)) raw = Inr c \<Longrightarrow> P (WriteFile (path result) c)"
  shows "allEvents P (writeTranslationFile env cfg result)"
proof -
  have ser: "allEvents P
     (andThen (await (serializeTranslationFile env (newTranslations result) (effectiveFormatOf env cfg result)
                           (indentation (extract_cfg cfg)) rawContent)) (\<lambda>fileContent.
         andThen (emit (Mkdir (dirname env (path result)))) (\<lambda>_.
         andThen (awaitVoid (mkdir env (dirname env (path result)))) (\<lambda>_.
         andThen (emit (WriteFile (path result) fileContent)) (\<lambda>_.
         andThen (awaitVoid (writeFile env (path result) fileContent)) (\<lambda>_.
         emit (LogInfo (styleText env [''green''] (''Updated: '' @ path result)))))))))" for rawContent
  proof (cases "serializeTranslationFile env (newTranslations result) (effectiveFormatOf env cfg result)
                           (indentation (extract_cfg cfg)) rawContent")
    case (Inl t)
    then show ?thesis by (simp add: andThen_await_Inl allEvents_def)
  next
    case (Inr c)
    with assms show ?thesis
      by (simp add: andThen_await_Inr) (intro allEvents_andThen; simp)
  qed
  show ?thesis
    unfolding writeTranslationFile_def Let_def
    by (cases "loadRawJson5Content env (path result)")
       (auto simp: andThen_ok andThen_await_Inr andThen_await_Inl allEvents_def ser [unfolded allEvents_def])
qed

lemma extraction_events:
  assumes w: "\<And>keys errs results. findKeys env cfg = Inr (keys, errs) \<Longrightarrow>
       getTranslations env keys cfg (syncPrimaryWithDefaults opts) (syncAll opts) = Inr results \<Longrightarrow>
       allEvents P (writeResults env cfg opts results False)"
    and "P FindKeys" "P GetTranslations" "\<And>s. P (SpinnerText s)" "\<And>s. P (SpinnerSucceed s)"
    and "\<And>s. P (LogInfo s)" "\<And>s. P (RecordFunnelShown s)" "\<And>s. P (AfterSync s)"
  shows "allEvents P (extraction env cfg plugins opts)"
proof (cases "findKeys env cfg")
  case (Inl t)
  with assms(2) show ?thesis
    by (simp add: extraction_def andThen_emit andThen_await_Inl allEvents_def)
next
  case (Inr kf)
  obtain keys errs where kf: "kf = (keys, errs)" by (cases kf)
  show ?thesis
  proof (cases "getTranslations env keys cfg (syncPrimaryWithDefaults opts) (syncAll opts)")
    case (Inl t)
    with Inr kf assms(2-4) show ?thesis
      by (simp add: extraction_def andThen_emit andThen_await_Inr andThen_await_Inl allEvents_def)
  next
    case r: (Inr results)
    have rest: "allEvents P
      (andThen (writeResults env cfg opts results False) (\<lambda>anyFileUpdated.
       andThen (if length plugins > 0
              then andThen (emit (SpinnerText ''Running post-extraction plugins...'')) (\<lambda>_.
                     runAfterSync plugins results cfg)
              else ok ()) (\<lambda>_.
       andThen (emit (SpinnerSucceed (completionMessage env errs))) (\<lambda>_.
       andThen (if anyFileUpdated then printLocizeFunnel env else ok ()) (\<lambda>_.
       ok (anyFileUpdated, length errs > 0))))))"
      using w [OF Inr [unfolded kf] r] assms(2-)
      by (intro allEvents_andThen allEvents_if runAfterSync_events printLocizeFunnel_events) simp_all
    with Inr kf r assms(2-4) show ?thesis
      by (simp add: extraction_def andThen_emit andThen_await_Inr allEvents_def)
  qed
qed

lemma runExtractor_events:
  assumes w: "\<And>keys errs results. findKeys env (applyDefaults cfg) = Inr (keys, errs) \<Longrightarrow>
       getTranslations env keys (applyDefaults cfg) (syncPrimaryWithDefaults opts) (syncAll opts) = Inr results \<Longrightarrow>
       allEvents P (writeResults env (applyDefaults cfg) opts results False)"
    and "P FindKeys" "P GetTranslations" "\<And>s. P (SpinnerText s)" "\<And>s. P (SpinnerSucceed s)"
    and "\<And>s. P (LogInfo s)" "\<And>s. P (RecordFunnelShown s)" "\<And>s. P (AfterSync s)"
    and "\<And>s q. P (SpinnerCreate s q)" "\<And>s. P (SpinnerFail s)"
  shows "allEvents P (runExtractor env cfg plugins0 opts)"
  unfolding runExtractor_def Let_def
  using assms(2-)
  by (intro allEvents_andThen allEvents_tryCatch extraction_events w) simp_all

lemma writeResults_result:
  "fst (writeResults env cfg opts rs a0) = Inr a \<Longrightarrow> a = (a0 \<or> (\<exists>r \<in> set rs. updated r))"
proof (induction rs arbitrary: a0)
  case Nil
  then show ?case by (simp add: ok_def)
next
  case (Cons r rs)
  show ?case
  proof (cases "updated r")
    case False
    with Cons show ?thesis by simp
  next
    case True
    have "fst (writeResults env cfg opts rs True) = Inr a"
    proof (cases "isDryRun opts \<noteq> Some True")
      case True
      with Cons.prems \<open>updated r\<close> show ?thesis
        by (auto dest: fst_andThen_Inr)
    next
      case False
      with Cons.prems \<open>updated r\<close> show ?thesis by simp
    qed
    from Cons.IH [OF this] True show ?thesis by simp
  qed
qed

lemma runExtractor_result:
  assumes "fst (runExtractor env cfg plugins opts) = Inr (a, h)"
  shows "\<exists>keys errs results.
           findKeys env (applyDefaults cfg) = Inr (keys, errs)
         \<and> getTranslations env keys (applyDefaults cfg) (syncPrimaryWithDefaults opts) (syncAll opts)
             = Inr results
         \<and> a = (\<exists>r \<in> set results. updated r) \<and> h = (errs \<noteq> [])"
proof -
  from assms have ex: "fst (extraction env (applyDefaults cfg)
                         (case plugins of Some ps \<Rightarrow> ps | None \<Rightarrow> []) opts) = Inr (a, h)"
    unfolding runExtractor_def Let_def
    by (auto dest!: fst_andThen_Inr fst_tryCatch_rethrow)
  then obtain kf where kf: "findKeys env (applyDefaults cfg) = Inr kf"
    unfolding extraction_def by (auto dest!: fst_andThen_Inr simp: await_def)
  obtain keys errs where p: "kf = (keys, errs)" by (cases kf)
  from ex kf p obtain results where
    r: "getTranslations env keys (applyDefaults cfg) (syncPrimaryWithDefaults opts) (syncAll opts) = Inr results"
    unfolding extraction_def
    by (auto simp: andThen_emit andThen_await_Inr dest!: fst_andThen_Inr simp: await_def)
  from ex kf p r obtain a' where
    w: "fst (writeResults env (applyDefaults cfg) opts results False) = Inr a'"
    and fin: "(a', length errs > 0) = (a, h)"
    unfolding extraction_def
    by (auto simp: andThen_emit andThen_await_Inr ok_def dest!: fst_andThen_Inr)
  from writeResults_result [OF w] fin kf p r show ?thesis by auto
qed

lemma writeResults_format:
  assumes "\<And>d. P (Mkdir d)" "\<And>s. P (LogInfo s)"
    and "\<And>r raw c. r \<in> set results \<Longrightarrow> updated r \<Longrightarrow>
           serializeTranslationFile env (newTranslations r) (effectiveFormatOf env cfg r)
             (indentation (extract_cfg cfg)) raw = Inr c \<Longrightarrow> P (WriteFile (path r) c)"
  shows "set rs \<subseteq> set results \<Longrightarrow> allEvents P (writeResults env cfg opts rs a)"
proof (induction rs arbitrary: a)
  case Nil
  then show ?case by simp
next
  case (Cons r rs)
  then have r: "r \<in> set results" and rs: "set rs \<subseteq> set results" by auto
  show ?case
  proof (cases "updated r")
    case False
    with Cons.IH [OF rs] show ?thesis by simp
  next
    case True
    have "allEvents P (writeTranslationFile env cfg r)"
      using assms(1,2) assms(3) [OF r True] by (rule writeTranslationFile_events)
    with True Cons.IH [OF rs] show ?thesis by auto
  qed
qed

lemma writeTranslationFile_succeeds:
  assumes "\<forall>p. \<exists>raw. loadRawJson5Content env p = Inr raw"
    and "\<forall>t f i raw. \<exists>c. serializeTranslationFile env t f i raw = Inr c"
    and "\<forall>d. mkdir env d = None" and "\<forall>p c. writeFile env p c = None"
  shows "\<exists>c. writeTranslationFile env cfg r =
           (Inr (), [Mkdir (dirname env (path r)), WriteFile (path r) c,
                     LogInfo (styleText env [''green''] (''Updated: '' @ path r))])"
proof (cases "effectiveFormatOf env cfg r = ''json5''")
  case True
  obtain raw where raw: "loadRawJson5Content env (path r) = Inr raw"
    using assms(1) by blast
  obtain c where c: "serializeTranslationFile env (newTranslations r) ''json5''
                       (indentation (extract_cfg cfg)) raw = Inr c"
    using assms(2) by blast
  have "writeTranslationFile env cfg r =
           (Inr (), [Mkdir (dirname env (path r)), WriteFile (path r) c,
                     LogInfo (styleText env [''green''] (''Updated: '' @ path r))])"
    using True raw c assms(3,4)
    by (simp add: writeTranslationFile_def Let_def action_defs andThen_Inr)
  then show ?thesis by blast
next
  case False
  obtain c where c: "serializeTranslationFile env (newTranslations r) (effectiveFormatOf env cfg r)
                       (indentation (extract_cfg cfg)) None = Inr c"
    using assms(2) by blast
  have "writeTranslationFile env cfg r =
           (Inr (), [Mkdir (dirname env (path r)), WriteFile (path r) c,
                     LogInfo (styleText env [''green''] (''Updated: '' @ path r))])"
    using False c assms(3,4)
    by (simp add: writeTranslationFile_def Let_def action_defs andThen_Inr)
  then show ?thesis by blast
qed

lemma writeResults_writes_all:
  assumes "isDryRun opts \<noteq> Some True"
    and "\<forall>p. \<exists>raw. loadRawJson5Content env p = Inr raw"
    and "\<forall>t f i raw. \<exists>c. serializeTranslationFile env t f i raw = Inr c"
    and "\<forall>d. mkdir env d = None" and "\<forall>p c. writeFile env p c = None"
  shows "\<forall>r \<in> set rs. updated r \<longrightarrow> (\<exists>c. WriteFile (path r) c \<in> set (snd (writeResults env cfg opts rs a)))"
proof (induction rs arbitrary: a)
  case Nil
  then show ?case by simp
next
  case (Cons r rs)
  show ?case
  proof (cases "updated r")
    case False
    with Cons.IH show ?thesis by simp
  next
    case True
    from writeTranslationFile_succeeds [OF assms(2-5)] obtain c where
      w: "writeTranslationFile env cfg r =
           (Inr (), [Mkdir (dirname env (path r)), WriteFile (path r) c,
                     LogInfo (styleText env [''green''] (''Updated: '' @ path r))])"
      by blast
    have "snd (writeResults env cfg opts (r # rs) a)
            = [Mkdir (dirname env (path r)), WriteFile (path r) c,
               LogInfo (styleText env [''green''] (''Updated: '' @ path r))]
              @ snd (writeResults env cfg opts rs True)"
      using True assms(1) by (simp add: w andThen_Inr)
    with Cons.IH [of True] show ?thesis by auto
  qed
qed

lemma extraction_contains_writes:
  assumes "findKeys env cfg = Inr (keys, errs)"
    and "getTranslations env keys cfg (syncPrimaryWithDefaults opts) (syncAll opts) = Inr results"
  shows "set (snd (writeResults env cfg opts results False))
           \<subseteq> set (snd (extraction env cfg ps opts))"
proof -
  have "snd (extraction env cfg ps opts) =
     FindKeys # SpinnerText (''Found '' @ string_of_nat (keysSize env keys)
                @ '' unique keys. Updating translation files...'') # GetTranslations #
     snd (andThen (writeResults env cfg opts results False) (\<lambda>anyFileUpdated.
       andThen (if length ps > 0
              then andThen (emit (SpinnerText ''Running post-extraction plugins...'')) (\<lambda>_.
                     runAfterSync ps results cfg)
              else ok ()) (\<lambda>_.
       andThen (emit (SpinnerSucceed (completionMessage env errs))) (\<lambda>_.
       andThen (if anyFileUpdated then printLocizeFunnel env else ok ()) (\<lambda>_.
       ok (anyFileUpdated, length errs > 0))))))"
    unfolding extraction_def
    by (simp only: andThen_emit andThen_await_Inr assms prod.case snd_conv)
  then show ?thesis
    using events_andThen_left [of "writeResults env cfg opts results False"] by auto
qed

lemma runExtractor_contains_writes:
  assumes "validateExtractorConfig env (applyDefaults cfg) = None"
    and "findKeys env (applyDefaults cfg) = Inr (keys, errs)"
    and "getTranslations env keys (applyDefaults cfg) (syncPrimaryWithDefaults opts) (syncAll opts)
           = Inr results"
  shows "set (snd (writeResults env (applyDefaults cfg) opts results False))
           \<subseteq> set (snd (runExtractor env cfg plugins opts))"
proof -
  define ps where "ps = (case plugins of Some ps \<Rightarrow> ps | None \<Rightarrow> [])"
  have "snd (runExtractor env cfg plugins opts) =
          SpinnerCreate (''Running i18next key extractor...'' @ [CHR 0x0A]) (quiet opts = Some True)
          # snd (tryCatch (extraction env (applyDefaults cfg) ps opts) (\<lambda>error.
              andThen (emit (SpinnerFail (styleText env [''red''] ''Extraction failed.''))) (\<lambda>_.
              throw error)))"
    unfolding runExtractor_def Let_def ps_def [symmetric]
    by (simp only: assms(1) andThen_awaitVoid_None andThen_emit snd_conv)
  then have "set (snd (extraction env (applyDefaults cfg) ps opts))
               \<subseteq> set (snd (runExtractor env cfg plugins opts))"
    using events_tryCatch_left [of "extraction env (applyDefaults cfg) ps opts"] by auto
  with extraction_contains_writes [OF assms(2,3), of ps] show ?thesis by blast
qed

section \<open>runExtractor: properties\<close>

text \<open>
  C2: let the configuration be valid, \<open>findKeys\<close> return its keys together with the
  skipped files \<open>errs\<close> (any list, empty or not), and \<open>getTranslations\<close> return \<open>results\<close>.
  Then, outside a dry run and when reading, serializing, \<open>mkdir\<close> and \<open>writeFile\<close> do
  not fail, \<open>runExtractor\<close> writes the file of every updated result; and whenever it
  resolves, \<open>anyFileUpdated\<close> tells whether some result was updated and \<open>hasErrors\<close> is
  true exactly when \<open>errs\<close> is not empty.
\<close>

theorem skipped_files_do_not_block_writes:
  assumes "validateExtractorConfig env (applyDefaults cfg) = None"
    and "findKeys env (applyDefaults cfg) = Inr (keys, errs)"
    and "getTranslations env keys (applyDefaults cfg) (syncPrimaryWithDefaults opts) (syncAll opts)
           = Inr results"
  shows "(isDryRun opts \<noteq> Some True \<longrightarrow>
          (\<forall>p. \<exists>raw. loadRawJson5Content env p = Inr raw) \<longrightarrow>
          (\<forall>t f i raw. \<exists>c. serializeTranslationFile env t f i raw = Inr c) \<longrightarrow>
          (\<forall>d. mkdir env d = None) \<longrightarrow> (\<forall>p c. writeFile env p c = None) \<longrightarrow>
          (\<forall>r \<in> set results. updated r \<longrightarrow>
             (\<exists>c. WriteFile (path r) c \<in> set (snd (runExtractor env cfg plugins opts)))))
       \<and> (\<forall>a h. fst (runExtractor env cfg plugins opts) = Inr (a, h) \<longrightarrow>
             a = (\<exists>r \<in> set results. updated r) \<and> h = (errs \<noteq> []))"
proof (intro conjI impI allI)
  assume "isDryRun opts \<noteq> Some True"
    "\<forall>p. \<exists>raw. loadRawJson5Content env p = Inr raw"
    "\<forall>t f i raw. \<exists>c. serializeTranslationFile env t f i raw = Inr c"
    "\<forall>d. mkdir env d = None" "\<forall>p c. writeFile env p c = None"
  from writeResults_writes_all [OF this] runExtractor_contains_writes [OF assms]
  show "\<forall>r \<in> set results. updated r \<longrightarrow>
             (\<exists>c. WriteFile (path r) c \<in> set (snd (runExtractor env cfg plugins opts)))"
    by blast
next
  fix a h
  assume "fst (runExtractor env cfg plugins opts) = Inr (a, h)"
  from runExtractor_result [OF this] assms(2,3)
  show "a = (\<exists>r \<in> set results. updated r)" and "h = (errs \<noteq> [])" by auto
qed

theorem skipped_files_do_not_block_writes_witness:
  "findKeys
      (\<lparr> styleText = (\<lambda>fmt s. s), extname = (\<lambda>f. ''.json''), dirname = (\<lambda>p. ''locales''),
        validateExtractorConfig = (\<lambda>c. None),
        findKeys = (\<lambda>c. Inr ((), [''bad.ts''])),
        keysSize = (\<lambda>k. 1),
        getTranslations = (\<lambda>k c s a. Inr [\<lparr> path = ''locales/en.json'', updated = True,
          newTranslations = JObj [(''hello'', JStr ''Hello'')], existingTranslations = JObj [] \<rparr>]),
        inferFormatFromPath = (\<lambda>p. ''json''),
        loadRawJson5Content = (\<lambda>p. Inr None),
        serializeTranslationFile = (\<lambda>t format i raw. Inr (format @ '' file'')),
        mkdir = (\<lambda>d. None), writeFile = (\<lambda>p c. None),
        shouldShowFunnel = (\<lambda>s. Inr False), recordFunnelShown = (\<lambda>s. None),
        lightBulb = ''*'' \<rparr>)
      (applyDefaults (\<lparr> locales = [''en''],
        extract_cfg = \<lparr> primaryLanguage = None, secondaryLanguages = None,
          functionPatterns = None, transComponents = None, outputFormat = None,
          indentation = None, extractFromComments = None,
          interpolationPrefix = None, interpolationSuffix = None \<rparr>,
        lint_cfg = None \<rparr>)) = Inr ((), [''bad.ts''])
   \<and> (\<exists>c. WriteFile ''locales/en.json'' c \<in> set (snd (runExtractor
      (\<lparr> styleText = (\<lambda>fmt s. s), extname = (\<lambda>f. ''.json''), dirname = (\<lambda>p. ''locales''),
        validateExtractorConfig = (\<lambda>c. None),
        findKeys = (\<lambda>c. Inr ((), [''bad.ts''])),
        keysSize = (\<lambda>k. 1),
        getTranslations = (\<lambda>k c s a. Inr [\<lparr> path = ''locales/en.json'', updated = True,
          newTranslations = JObj [(''hello'', JStr ''Hello'')], existingTranslations = JObj [] \<rparr>]),
        inferFormatFromPath = (\<lambda>p. ''json''),
        loadRawJson5Content = (\<lambda>p. Inr None),
        serializeTranslationFile = (\<lambda>t format i raw. Inr (format @ '' file'')),
        mkdir = (\<lambda>d. None), writeFile = (\<lambda>p c. None),
        shouldShowFunnel = (\<lambda>s. Inr False), recordFunnelShown = (\<lambda>s. None),
        lightBulb = ''*'' \<rparr>)
      (\<lparr> locales = [''en''],
        extract_cfg = \<lparr> primaryLanguage = None, secondaryLanguages = None,
          functionPatterns = None, transComponents = None, outputFormat = None,
          indentation = None, extractFromComments = None,
          interpolationPrefix = None, interpolationSuffix = None \<rparr>,
        lint_cfg = None \<rparr>)
      None
      (\<lparr> isWatchMode = None, isDryRun = None, syncPrimaryWithDefaults = None,
        syncAll = None, quiet = None \<rparr>))))
   \<and> fst (runExtractor
      (\<lparr> styleText = (\<lambda>fmt s. s), extname = (\<lambda>f. ''.json''), dirname = (\<lambda>p. ''locales''),
        validateExtractorConfig = (\<lambda>c. None),
        findKeys = (\<lambda>c. Inr ((), [''bad.ts''])),
        keysSize = (\<lambda>k. 1),
        getTranslations = (\<lambda>k c s a. Inr [\<lparr> path = ''locales/en.json'', updated = True,
          newTranslations = JObj [(''hello'', JStr ''Hello'')], existingTranslations = JObj [] \<rparr>]),
        inferFormatFromPath = (\<lambda>p. ''json''),
        loadRawJson5Content = (\<lambda>p. Inr None),
        serializeTranslationFile = (\<lambda>t format i raw. Inr (format @ '' file'')),
        mkdir = (\<lambda>d. None), writeFile = (\<lambda>p c. None),
        shouldShowFunnel = (\<lambda>s. Inr False), recordFunnelShown = (\<lambda>s. None),
        lightBulb = ''*'' \<rparr>)
      (\<lparr> locales = [''en''],
        extract_cfg = \<lparr> primaryLanguage = None, secondaryLanguages = None,
          functionPatterns = None, transComponents = None, outputFormat = None,
          indentation = None, extractFromComments = None,
          interpolationPrefix = None, interpolationSuffix = None \<rparr>,
        lint_cfg = None \<rparr>)
      None
      (\<lparr> isWatchMode = None, isDryRun = None, syncPrimaryWithDefaults = None,
        syncAll = None, quiet = None \<rparr>)) = Inr (True, True)"
proof -
  have v: "fst (runExtractor
      (\<lparr> styleText = (\<lambda>fmt s. s), extname = (\<lambda>f. ''.json''), dirname = (\<lambda>p. ''locales''),
        validateExtractorConfig = (\<lambda>c. None),
        findKeys = (\<lambda>c. Inr ((), [''bad.ts''])),
        keysSize = (\<lambda>k. 1),
        getTranslations = (\<lambda>k c s a. Inr [\<lparr> path = ''locales/en.json'', updated = True,
          newTranslations = JObj [(''hello'', JStr ''Hello'')], existingTranslations = JObj [] \<rparr>]),
        inferFormatFromPath = (\<lambda>p. ''json''),
        loadRawJson5Content = (\<lambda>p. Inr None),
        serializeTranslationFile = (\<lambda>t format i raw. Inr (format @ '' file'')),
        mkdir = (\<lambda>d. None), writeFile = (\<lambda>p c. None),
        shouldShowFunnel = (\<lambda>s. Inr False), recordFunnelShown = (\<lambda>s. None),
        lightBulb = ''*'' \<rparr>)
      (\<lparr> locales = [''en''],
        extract_cfg = \<lparr> primaryLanguage = None, secondaryLanguages = None,
          functionPatterns = None, transComponents = None, outputFormat = None,
          indentation = None, extractFromComments = None,
          interpolationPrefix = None, interpolationSuffix = None \<rparr>,
        lint_cfg = None \<rparr>)
      None
      (\<lparr> isWatchMode = None, isDryRun = None, syncPrimaryWithDefaults = None,
        syncAll = None, quiet = None \<rparr>)) = Inr (True, True)"
    by code_simp
  from skipped_files_do_not_block_writes
      [of "\<lparr> styleText = (\<lambda>fmt s. s), extname = (\<lambda>f. ''.json''), dirname = (\<lambda>p. ''locales''),
        validateExtractorConfig = (\<lambda>c. None),
        findKeys = (\<lambda>c. Inr ((), [''bad.ts''])),
        keysSize = (\<lambda>k. 1),
        getTranslations = (\<lambda>k c s a. Inr [\<lparr> path = ''locales/en.json'', updated = True,
          newTranslations = JObj [(''hello'', JStr ''Hello'')], existingTranslations = JObj [] \<rparr>]),
        inferFormatFromPath = (\<lambda>p. ''json''),
        loadRawJson5Content = (\<lambda>p. Inr None),
        serializeTranslationFile = (\<lambda>t format i raw. Inr (format @ '' file'')),
        mkdir = (\<lambda>d. None), writeFile = (\<lambda>p c. None),
        shouldShowFunnel = (\<lambda>s. Inr False), recordFunnelShown = (\<lambda>s. None),
        lightBulb = ''*'' \<rparr>"
          "\<lparr> locales = [''en''],
        extract_cfg = \<lparr> primaryLanguage = None, secondaryLanguages = None,
          functionPatterns = None, transComponents = None, outputFormat = None,
          indentation = None, extractFromComments = None,
          interpolationPrefix = None, interpolationSuffix = None \<rparr>,
        lint_cfg = None \<rparr>" "()" "[''bad.ts'']"
          "\<lparr> isWatchMode = None, isDryRun = None, syncPrimaryWithDefaults = None,
        syncAll = None, quiet = None \<rparr>"
          "[\<lparr> path = ''locales/en.json'', updated = True,
        newTranslations = JObj [(''hello'', JStr ''Hello'')], existingTranslations = JObj [] \<rparr>]" None]
    v show ?thesis
    by simp
qed

text \<open>
  C5: when \<open>validateExtractorConfig\<close> throws on the configuration (with its defaults
  filled in), \<open>runExtractor\<close> rejects with that error and has had no effect at all: no
  spinner, no call of \<open>findKeys\<close>, which is the stage that reads the source files and
  collects the keys, and no file written.
\<close>

theorem invalid_config_aborts_first:
  assumes "validateExtractorConfig env (applyDefaults cfg) = Some err"
  shows "runExtractor env cfg plugins opts = (Inl err, [])"
  using assms by (simp add: runExtractor_def Let_def andThen_awaitVoid_Some)

theorem invalid_config_aborts_first_witness:
  "runExtractor
      (\<lparr> styleText = (\<lambda>fmt s. s), extname = (\<lambda>f. ''.json''), dirname = (\<lambda>p. ''locales''),
        validateExtractorConfig = (\<lambda>c. Some (ErrorObj \<lparr> error_name = ''ExtractorError'', message = ''extract.input is required'', stack = None \<rparr>)),
        findKeys = (\<lambda>c. Inr ((), [])),
        keysSize = (\<lambda>k. 1),
        getTranslations = (\<lambda>k c s a. Inr []),
        inferFormatFromPath = (\<lambda>p. ''json''),
        loadRawJson5Content = (\<lambda>p. Inr None),
        serializeTranslationFile = (\<lambda>t format i raw. Inr (format @ '' file'')),
        mkdir = (\<lambda>d. None), writeFile = (\<lambda>p c. None),
        shouldShowFunnel = (\<lambda>s. Inr False), recordFunnelShown = (\<lambda>s. None),
        lightBulb = ''*'' \<rparr>)
      (\<lparr> locales = [''en''],
        extract_cfg = \<lparr> primaryLanguage = None, secondaryLanguages = None,
          functionPatterns = None, transComponents = None, outputFormat = None,
          indentation = None, extractFromComments = None,
          interpolationPrefix = None, interpolationSuffix = None \<rparr>,
        lint_cfg = None \<rparr>)
      None
      (\<lparr> isWatchMode = None, isDryRun = None, syncPrimaryWithDefaults = None,
        syncAll = None, quiet = None \<rparr>)
     = (Inl (ErrorObj \<lparr> error_name = ''ExtractorError'', message = ''extract.input is required'', stack = None \<rparr>), [])"
  using invalid_config_aborts_first
      [of "\<lparr> styleText = (\<lambda>fmt s. s), extname = (\<lambda>f. ''.json''), dirname = (\<lambda>p. ''locales''),
        validateExtractorConfig = (\<lambda>c. Some (ErrorObj \<lparr> error_name = ''ExtractorError'', message = ''extract.input is required'', stack = None \<rparr>)),
        findKeys = (\<lambda>c. Inr ((), [])),
        keysSize = (\<lambda>k. 1),
        getTranslations = (\<lambda>k c s a. Inr []),
        inferFormatFromPath = (\<lambda>p. ''json''),
        loadRawJson5Content = (\<lambda>p. Inr None),
        serializeTranslationFile = (\<lambda>t format i raw. Inr (format @ '' file'')),
        mkdir = (\<lambda>d. None), writeFile = (\<lambda>p c. None),
        shouldShowFunnel = (\<lambda>s. Inr False), recordFunnelShown = (\<lambda>s. None),
        lightBulb = ''*'' \<rparr>"
          "\<lparr> locales = [''en''],
        extract_cfg = \<lparr> primaryLanguage = None, secondaryLanguages = None,
          functionPatterns = None, transComponents = None, outputFormat = None,
          indentation = None, extractFromComments = None,
          interpolationPrefix = None, interpolationSuffix = None \<rparr>,
        lint_cfg = None \<rparr>"
          "ErrorObj \<lparr> error_name = ''ExtractorError'', message = ''extract.input is required'', stack = None \<rparr>"
          None
          "\<lparr> isWatchMode = None, isDryRun = None, syncPrimaryWithDefaults = None,
        syncAll = None, quiet = None \<rparr>"]
  by simp

text \<open>
  C7: every file that \<open>runExtractor\<close> writes is the file of an updated result, and its
  content is what \<open>serializeTranslationFile\<close> returns for the new translations of that
  result in the format \<open>config.extract.outputFormat\<close> when that is set, and otherwise in
  the format inferred from the path of that file.
\<close>

theorem written_format_is_explicit_or_inferred:
  assumes "WriteFile p c \<in> set (snd (runExtractor env cfg plugins opts))"
  shows "\<exists>keys errs results r raw.
           findKeys env (applyDefaults cfg) = Inr (keys, errs)
         \<and> getTranslations env keys (applyDefaults cfg) (syncPrimaryWithDefaults opts) (syncAll opts)
             = Inr results
         \<and> r \<in> set results \<and> updated r \<and> path r = p
         \<and> serializeTranslationFile env (newTranslations r)
              (case outputFormat (extract_cfg cfg) of
                 Some format \<Rightarrow> format
               | None \<Rightarrow> inferFormatFromPath env p)
              (indentation (extract_cfg cfg)) raw = Inr c"
proof -
  define Q where "Q p c \<longleftrightarrow> (\<exists>keys errs results r raw.
           findKeys env (applyDefaults cfg) = Inr (keys, errs)
         \<and> getTranslations env keys (applyDefaults cfg) (syncPrimaryWithDefaults opts) (syncAll opts)
             = Inr results
         \<and> r \<in> set results \<and> updated r \<and> path r = p
         \<and> serializeTranslationFile env (newTranslations r)
              (case outputFormat (extract_cfg cfg) of
                 Some format \<Rightarrow> format
               | None \<Rightarrow> inferFormatFromPath env p)
              (indentation (extract_cfg cfg)) raw = Inr c)" for p c
  define P where "P e \<longleftrightarrow> (\<forall>p c. e = WriteFile p c \<longrightarrow> Q p c)" for e
  have "allEvents P (runExtractor env cfg plugins opts)"
  proof (rule runExtractor_events)
    fix keys errs results
    assume fk: "findKeys env (applyDefaults cfg) = Inr (keys, errs)"
      and gt: "getTranslations env keys (applyDefaults cfg) (syncPrimaryWithDefaults opts)
                 (syncAll opts) = Inr results"
    show "allEvents P (writeResults env (applyDefaults cfg) opts results False)"
    proof (rule writeResults_format [where results = results])
      fix r raw c
      assume "r \<in> set results" "updated r"
        and "serializeTranslationFile env (newTranslations r) (effectiveFormatOf env (applyDefaults cfg) r)
               (indentation (extract_cfg (applyDefaults cfg))) raw = Inr c"
      with fk gt have "Q (path r) c"
        unfolding Q_def effectiveFormatOf_def by auto
      then show "P (WriteFile (path r) c)" by (simp add: P_def)
    qed (simp_all add: P_def)
  qed (simp_all add: P_def)
  with assms have "Q p c" by (auto simp: allEvents_def P_def)
  then show ?thesis by (simp add: Q_def)
qed

theorem written_format_is_explicit_or_inferred_witness:
  "WriteFile ''locales/en.json'' ''json5 file'' \<in> set (snd (runExtractor
      (\<lparr> styleText = (\<lambda>fmt s. s), extname = (\<lambda>f. ''.json''), dirname = (\<lambda>p. ''locales''),
        validateExtractorConfig = (\<lambda>c. None),
        findKeys = (\<lambda>c. Inr ((), [''bad.ts''])),
        keysSize = (\<lambda>k. 1),
        getTranslations = (\<lambda>k c s a. Inr [\<lparr> path = ''locales/en.json'', updated = True,
          newTranslations = JObj [(''hello'', JStr ''Hello'')], existingTranslations = JObj [] \<rparr>]),
        inferFormatFromPath = (\<lambda>p. ''json''),
        loadRawJson5Content = (\<lambda>p. Inr None),
        serializeTranslationFile = (\<lambda>t format i raw. Inr (format @ '' file'')),
        mkdir = (\<lambda>d. None), writeFile = (\<lambda>p c. None),
        shouldShowFunnel = (\<lambda>s. Inr False), recordFunnelShown = (\<lambda>s. None),
        lightBulb = ''*'' \<rparr>)
      (\<lparr> locales = [''en''],
        extract_cfg = \<lparr> primaryLanguage = None, secondaryLanguages = None,
          functionPatterns = None, transComponents = None, outputFormat = Some ''json5'',
          indentation = None, extractFromComments = None,
          interpolationPrefix = None, interpolationSuffix = None \<rparr>,
        lint_cfg = None \<rparr>)
      None
      (\<lparr> isWatchMode = None, isDryRun = None, syncPrimaryWithDefaults = None,
        syncAll = None, quiet = None \<rparr>)))
   \<and> inferFormatFromPath
      (\<lparr> styleText = (\<lambda>fmt s. s), extname = (\<lambda>f. ''.json''), dirname = (\<lambda>p. ''locales''),
        validateExtractorConfig = (\<lambda>c. None),
        findKeys = (\<lambda>c. Inr ((), [''bad.ts''])),
        keysSize = (\<lambda>k. 1),
        getTranslations = (\<lambda>k c s a. Inr [\<lparr> path = ''locales/en.json'', updated = True,
          newTranslations = JObj [(''hello'', JStr ''Hello'')], existingTranslations = JObj [] \<rparr>]),
        inferFormatFromPath = (\<lambda>p. ''json''),
        loadRawJson5Content = (\<lambda>p. Inr None),
        serializeTranslationFile = (\<lambda>t format i raw. Inr (format @ '' file'')),
        mkdir = (\<lambda>d. None), writeFile = (\<lambda>p c. None),
        shouldShowFunnel = (\<lambda>s. Inr False), recordFunnelShown = (\<lambda>s. None),
        lightBulb = ''*'' \<rparr>) ''locales/en.json'' = ''json''
   \<and> (\<exists>tree raw. serializeTranslationFile
      (\<lparr> styleText = (\<lambda>fmt s. s), extname = (\<lambda>f. ''.json''), dirname = (\<lambda>p. ''locales''),
        validateExtractorConfig = (\<lambda>c. None),
        findKeys = (\<lambda>c. Inr ((), [''bad.ts''])),
        keysSize = (\<lambda>k. 1),
        getTranslations = (\<lambda>k c s a. Inr [\<lparr> path = ''locales/en.json'', updated = True,
          newTranslations = JObj [(''hello'', JStr ''Hello'')], existingTranslations = JObj [] \<rparr>]),
        inferFormatFromPath = (\<lambda>p. ''json''),
        loadRawJson5Content = (\<lambda>p. Inr None),
        serializeTranslationFile = (\<lambda>t format i raw. Inr (format @ '' file'')),
        mkdir = (\<lambda>d. None), writeFile = (\<lambda>p c. None),
        shouldShowFunnel = (\<lambda>s. Inr False), recordFunnelShown = (\<lambda>s. None),
        lightBulb = ''*'' \<rparr>) tree ''json5'' None raw = Inr ''json5 file'')"
proof -
  have w: "WriteFile ''locales/en.json'' ''json5 file'' \<in> set (snd (runExtractor
      (\<lparr> styleText = (\<lambda>fmt s. s), extname = (\<lambda>f. ''.json''), dirname = (\<lambda>p. ''locales''),
        validateExtractorConfig = (\<lambda>c. None),
        findKeys = (\<lambda>c. Inr ((), [''bad.ts''])),
        keysSize = (\<lambda>k. 1),
        getTranslations = (\<lambda>k c s a. Inr [\<lparr> path = ''locales/en.json'', updated = True,
          newTranslations = JObj [(''hello'', JStr ''Hello'')], existingTranslations = JObj [] \<rparr>]),
        inferFormatFromPath = (\<lambda>p. ''json''),
        loadRawJson5Content = (\<lambda>p. Inr None),
        serializeTranslationFile = (\<lambda>t format i raw. Inr (format @ '' file'')),
        mkdir = (\<lambda>d. None), writeFile = (\<lambda>p c. None),
        shouldShowFunnel = (\<lambda>s. Inr False), recordFunnelShown = (\<lambda>s. None),
        lightBulb = ''*'' \<rparr>)
      (\<lparr> locales = [''en''],
        extract_cfg = \<lparr> primaryLanguage = None, secondaryLanguages = None,
          functionPatterns = None, transComponents = None, outputFormat = Some ''json5'',
          indentation = None, extractFromComments = None,
          interpolationPrefix = None, interpolationSuffix = None \<rparr>,
        lint_cfg = None \<rparr>)
      None
      (\<lparr> isWatchMode = None, isDryRun = None, syncPrimaryWithDefaults = None,
        syncAll = None, quiet = None \<rparr>)))"
    by code_simp
  from written_format_is_explicit_or_inferred [OF w] w show ?thesis
    by auto
qed

text \<open>
  C8: in a dry run \<open>runExtractor\<close> makes no directory and writes no file, whatever the
  results are; and when it resolves, \<open>anyFileUpdated\<close> still tells whether some result
  of \<open>getTranslations\<close> was updated.
\<close>

theorem dry_run_writes_nothing:
  assumes "isDryRun opts = Some True"
  shows "(\<forall>d. Mkdir d \<notin> set (snd (runExtractor env cfg plugins opts)))
       \<and> (\<forall>p c. WriteFile p c \<notin> set (snd (runExtractor env cfg plugins opts)))
       \<and> (\<forall>a h. fst (runExtractor env cfg plugins opts) = Inr (a, h) \<longrightarrow>
            (\<exists>keys errs results.
               findKeys env (applyDefaults cfg) = Inr (keys, errs)
             \<and> getTranslations env keys (applyDefaults cfg) (syncPrimaryWithDefaults opts) (syncAll opts)
                 = Inr results
             \<and> a = (\<exists>r \<in> set results. updated r)))"
proof -
  have "allEvents (\<lambda>e. \<not> isFileWrite e) (runExtractor env cfg plugins opts)"
    by (rule runExtractor_events) (simp_all add: writeResults_dry_events [OF assms] isFileWrite_def)
  then have "\<forall>e \<in> set (snd (runExtractor env cfg plugins opts)). \<not> isFileWrite e"
    by (simp add: allEvents_def)
  then have "(\<forall>d. Mkdir d \<notin> set (snd (runExtractor env cfg plugins opts)))
       \<and> (\<forall>p c. WriteFile p c \<notin> set (snd (runExtractor env cfg plugins opts)))"
    by (auto simp: isFileWrite_def)
  moreover have "\<forall>a h. fst (runExtractor env cfg plugins opts) = Inr (a, h) \<longrightarrow>
            (\<exists>keys errs results.
               findKeys env (applyDefaults cfg) = Inr (keys, errs)
             \<and> getTranslations env keys (applyDefaults cfg) (syncPrimaryWithDefaults opts) (syncAll opts)
                 = Inr results
             \<and> a = (\<exists>r \<in> set results. updated r))"
    using runExtractor_result by blast
  ultimately show ?thesis by blast
qed

theorem dry_run_writes_nothing_witness:
  "isDryRun (\<lparr> isWatchMode = None, isDryRun = Some True, syncPrimaryWithDefaults = None,
        syncAll = None, quiet = None \<rparr>) = Some True
   \<and> fst (runExtractor
      (\<lparr> styleText = (\<lambda>fmt s. s), extname = (\<lambda>f. ''.json''), dirname = (\<lambda>p. ''locales''),
        validateExtractorConfig = (\<lambda>c. None),
        findKeys = (\<lambda>c. Inr ((), [''bad.ts''])),
        keysSize = (\<lambda>k. 1),
        getTranslations = (\<lambda>k c s a. Inr [\<lparr> path = ''locales/en.json'', updated = True,
          newTranslations = JObj [(''hello'', JStr ''Hello'')], existingTranslations = JObj [] \<rparr>]),
        inferFormatFromPath = (\<lambda>p. ''json''),
        loadRawJson5Content = (\<lambda>p. Inr None),
        serializeTranslationFile = (\<lambda>t format i raw. Inr (format @ '' file'')),
        mkdir = (\<lambda>d. None), writeFile = (\<lambda>p c. None),
        shouldShowFunnel = (\<lambda>s. Inr False), recordFunnelShown = (\<lambda>s. None),
        lightBulb = ''*'' \<rparr>)
      (\<lparr> locales = [''en''],
        extract_cfg = \<lparr> primaryLanguage = None, secondaryLanguages = None,
          functionPatterns = None, transComponents = None, outputFormat = None,
          indentation = None, extractFromComments = None,
          interpolationPrefix = None, interpolationSuffix = None \<rparr>,
        lint_cfg = None \<rparr>)
      None
      (\<lparr> isWatchMode = None, isDryRun = Some True, syncPrimaryWithDefaults = None,
        syncAll = None, quiet = None \<rparr>)) = Inr (True, True)
   \<and> Mkdir ''locales'' \<notin> set (snd (runExtractor
      (\<lparr> styleText = (\<lambda>fmt s. s), extname = (\<lambda>f. ''.json''), dirname = (\<lambda>p. ''locales''),
        validateExtractorConfig = (\<lambda>c. None),
        findKeys = (\<lambda>c. Inr ((), [''bad.ts''])),
        keysSize = (\<lambda>k. 1),
        getTranslations = (\<lambda>k c s a. Inr [\<lparr> path = ''locales/en.json'', updated = True,
          newTranslations = JObj [(''hello'', JStr ''Hello'')], existingTranslations = JObj [] \<rparr>]),
        inferFormatFromPath = (\<lambda>p. ''json''),
        loadRawJson5Content = (\<lambda>p. Inr None),
        serializeTranslationFile = (\<lambda>t format i raw. Inr (format @ '' file'')),
        mkdir = (\<lambda>d. None), writeFile = (\<lambda>p c. None),
        shouldShowFunnel = (\<lambda>s. Inr False), recordFunnelShown = (\<lambda>s. None),
        lightBulb = ''*'' \<rparr>)
      (\<lparr> locales = [''en''],
        extract_cfg = \<lparr> primaryLanguage = None, secondaryLanguages = None,
          functionPatterns = None, transComponents = None, outputFormat = None,
          indentation = None, extractFromComments = None,
          interpolationPrefix = None, interpolationSuffix = None \<rparr>,
        lint_cfg = None \<rparr>)
      None
      (\<lparr> isWatchMode = None, isDryRun = Some True, syncPrimaryWithDefaults = None,
        syncAll = None, quiet = None \<rparr>)))
   \<and> WriteFile ''locales/en.json'' ''json file'' \<notin> set (snd (runExtractor
      (\<lparr> styleText = (\<lambda>fmt s. s), extname = (\<lambda>f. ''.json''), dirname = (\<lambda>p. ''locales''),
        validateExtractorConfig = (\<lambda>c. None),
        findKeys = (\<lambda>c. Inr ((), [''bad.ts''])),
        keysSize = (\<lambda>k. 1),
        getTranslations = (\<lambda>k c s a. Inr [\<lparr> path = ''locales/en.json'', updated = True,
          newTranslations = JObj [(''hello'', JStr ''Hello'')], existingTranslations = JObj [] \<rparr>]),
        inferFormatFromPath = (\<lambda>p. ''json''),
        loadRawJson5Content = (\<lambda>p. Inr None),
        serializeTranslationFile = (\<lambda>t format i raw. Inr (format @ '' file'')),
        mkdir = (\<lambda>d. None), writeFile = (\<lambda>p c. None),
        shouldShowFunnel = (\<lambda>s. Inr False), recordFunnelShown = (\<lambda>s. None),
        lightBulb = ''*'' \<rparr>)
      (\<lparr> locales = [''en''],
        extract_cfg = \<lparr> primaryLanguage = None, secondaryLanguages = None,
          functionPatterns = None, transComponents = None, outputFormat = None,
          indentation = None, extractFromComments = None,
          interpolationPrefix = None, interpolationSuffix = None \<rparr>,
        lint_cfg = None \<rparr>)
      None
      (\<lparr> isWatchMode = None, isDryRun = Some True, syncPrimaryWithDefaults = None,
        syncAll = None, quiet = None \<rparr>)))"
proof -
  have v: "fst (runExtractor
      (\<lparr> styleText = (\<lambda>fmt s. s), extname = (\<lambda>f. ''.json''), dirname = (\<lambda>p. ''locales''),
        validateExtractorConfig = (\<lambda>c. None),
        findKeys = (\<lambda>c. Inr ((), [''bad.ts''])),
        keysSize = (\<lambda>k. 1),
        getTranslations = (\<lambda>k c s a. Inr [\<lparr> path = ''locales/en.json'', updated = True,
          newTranslations = JObj [(''hello'', JStr ''Hello'')], existingTranslations = JObj [] \<rparr>]),
        inferFormatFromPath = (\<lambda>p. ''json''),
        loadRawJson5Content = (\<lambda>p. Inr None),
        serializeTranslationFile = (\<lambda>t format i raw. Inr (format @ '' file'')),
        mkdir = (\<lambda>d. None), writeFile = (\<lambda>p c. None),
        shouldShowFunnel = (\<lambda>s. Inr False), recordFunnelShown = (\<lambda>s. None),
        lightBulb = ''*'' \<rparr>)
      (\<lparr> locales = [''en''],
        extract_cfg = \<lparr> primaryLanguage = None, secondaryLanguages = None,
          functionPatterns = None, transComponents = None, outputFormat = None,
          indentation = None, extractFromComments = None,
          interpolationPrefix = None, interpolationSuffix = None \<rparr>,
        lint_cfg = None \<rparr>)
      None
      (\<lparr> isWatchMode = None, isDryRun = Some True, syncPrimaryWithDefaults = None,
        syncAll = None, quiet = None \<rparr>)) = Inr (True, True)"
    by code_simp
  from dry_run_writes_nothing
      [of "\<lparr> isWatchMode = None, isDryRun = Some True, syncPrimaryWithDefaults = None,
        syncAll = None, quiet = None \<rparr>"
          "\<lparr> styleText = (\<lambda>fmt s. s), extname = (\<lambda>f. ''.json''), dirname = (\<lambda>p. ''locales''),
        validateExtractorConfig = (\<lambda>c. None),
        findKeys = (\<lambda>c. Inr ((), [''bad.ts''])),
        keysSize = (\<lambda>k. 1),
        getTranslations = (\<lambda>k c s a. Inr [\<lparr> path = ''locales/en.json'', updated = True,
          newTranslations = JObj [(''hello'', JStr ''Hello'')], existingTranslations = JObj [] \<rparr>]),
        inferFormatFromPath = (\<lambda>p. ''json''),
        loadRawJson5Content = (\<lambda>p. Inr None),
        serializeTranslationFile = (\<lambda>t format i raw. Inr (format @ '' file'')),
        mkdir = (\<lambda>d. None), writeFile = (\<lambda>p c. None),
        shouldShowFunnel = (\<lambda>s. Inr False), recordFunnelShown = (\<lambda>s. None),
        lightBulb = ''*'' \<rparr>"
          "\<lparr> locales = [''en''],
        extract_cfg = \<lparr> primaryLanguage = None, secondaryLanguages = None,
          functionPatterns = None, transComponents = None, outputFormat = None,
          indentation = None, extractFromComments = None,
          interpolationPrefix = None, interpolationSuffix = None \<rparr>,
        lint_cfg = None \<rparr>" None]
    v show ?thesis
    by simp
qed

section \<open>The linter: which calls match a function pattern\<close>

lemma matchesPatterns_iff:
  "matchesPatterns ps c m \<longleftrightarrow>
     m \<or> (\<exists>p \<in> set ps. c = JStr (if startsWith p ''*.'' then slice_from 2 p else p))"
  by (induction ps arbitrary: m) auto

lemma getProp_str_truthy: "getProp c k = JStr s \<Longrightarrow> truthy c"
  by (cases c) simp_all

text \<open>
  C3, as stated, fails: with the single pattern \<open>*.t\<close> the call \<open>t()\<close>, whose callee is a
  plain identifier and not a member expression, matches.
\<close>

theorem wildcard_matches_bare_identifier:
  "callMatches
     (\<lparr> locales = [''en''],
       extract_cfg = \<lparr> primaryLanguage = None, secondaryLanguages = None,
         functionPatterns = Some [''*.t''], transComponents = None, outputFormat = None,
         indentation = None, extractFromComments = None,
         interpolationPrefix = None, interpolationSuffix = None \<rparr>,
       lint_cfg = None \<rparr>)
     (JObj [(''type'', (JStr ''CallExpression'')),
       (''callee'', (JObj [(''type'', (JStr ''Identifier'')),
         (''value'', (JStr ''t''))])),
       (''arguments'', (JArr []))])
   \<and> getProp (getProp
     (JObj [(''type'', (JStr ''CallExpression'')),
       (''callee'', (JObj [(''type'', (JStr ''Identifier'')),
         (''value'', (JStr ''t''))])),
       (''arguments'', (JArr []))]) ''callee'') ''type'' \<noteq> JStr ''MemberExpression''"
  by (simp add: callMatches_def fnPatternsOf_def calleeNameOf_def startsWith_def slice_from_def)

text \<open>
  C3, amended: the handler reduces the callee to a name. For an identifier callee the name
  is its \<open>value\<close>, or its \<open>name\<close> when the value is empty or absent (and the empty string
  when both are); for a member expression whose property is an identifier it is the
  \<open>value\<close> of that property, or its \<open>name\<close> when the value is empty or absent; for every
  other callee it is the empty string. A call matches exactly when some configured
  pattern fits that name: a pattern \<open>*.f\<close> fits the name \<open>f\<close>, and a pattern \<open>f\<close> that
  does not start with \<open>*.\<close> fits the name \<open>f\<close>.
\<close>

theorem callMatches_by_callee_name:
  "(callMatches cfg node \<longleftrightarrow>
      (\<exists>pattern \<in> set (fnPatternsOf cfg).
         calleeNameOf node
           = JStr (if startsWith pattern ''*.'' then slice_from 2 pattern else pattern)))
   \<and> (getProp (getProp node ''callee'') ''type'' = JStr ''Identifier'' \<longrightarrow>
        truthy (getProp (getProp node ''callee'') ''value'') \<longrightarrow>
        calleeNameOf node = getProp (getProp node ''callee'') ''value'')
   \<and> (getProp (getProp node ''callee'') ''type'' = JStr ''Identifier'' \<longrightarrow>
        \<not> truthy (getProp (getProp node ''callee'') ''value'') \<longrightarrow>
        truthy (getProp (getProp node ''callee'') ''name'') \<longrightarrow>
        calleeNameOf node = getProp (getProp node ''callee'') ''name'')
   \<and> (getProp (getProp node ''callee'') ''type'' = JStr ''Identifier'' \<longrightarrow>
        \<not> truthy (getProp (getProp node ''callee'') ''value'') \<longrightarrow>
        \<not> truthy (getProp (getProp node ''callee'') ''name'') \<longrightarrow>
        calleeNameOf node = JStr [])
   \<and> (getProp (getProp node ''callee'') ''type'' = JStr ''MemberExpression'' \<longrightarrow>
        getProp (getProp (getProp node ''callee'') ''property'') ''type'' = JStr ''Identifier'' \<longrightarrow>
        calleeNameOf node =
          (if truthy (getProp (getProp (getProp node ''callee'') ''property'') ''value'')
           then getProp (getProp (getProp node ''callee'') ''property'') ''value''
           else getProp (getProp (getProp node ''callee'') ''property'') ''name''))
   \<and> (getProp (getProp node ''callee'') ''type'' = JStr ''MemberExpression'' \<longrightarrow>
        getProp (getProp (getProp node ''callee'') ''property'') ''type'' \<noteq> JStr ''Identifier'' \<longrightarrow>
        calleeNameOf node = JStr [])
   \<and> (getProp (getProp node ''callee'') ''type'' \<noteq> JStr ''Identifier'' \<longrightarrow>
        getProp (getProp node ''callee'') ''type'' \<noteq> JStr ''MemberExpression'' \<longrightarrow>
        calleeNameOf node = JStr [])"
proof -
  have typed: "truthy (getProp node ''callee'')"
    if "getProp (getProp node ''callee'') ''type'' = JStr t" for t
    using that by (rule getProp_str_truthy)
  have "callMatches cfg node \<longleftrightarrow>
      (\<exists>pattern \<in> set (fnPatternsOf cfg).
         calleeNameOf node
           = JStr (if startsWith pattern ''*.'' then slice_from 2 pattern else pattern))"
    using matchesPatterns_iff [of "fnPatternsOf cfg" "calleeNameOf node" False]
    by (simp add: callMatches_def)
  then show ?thesis
    by (auto simp: calleeNameOf_def Let_def dest: typed)
qed

theorem callMatches_by_callee_name_witness:
  "''*.t'' \<in> set (fnPatternsOf
       (\<lparr> locales = [''en''],
          extract_cfg = \<lparr> primaryLanguage = None, secondaryLanguages = None,
            functionPatterns = Some [''*.t''], transComponents = None, outputFormat = None,
            indentation = None, extractFromComments = None,
            interpolationPrefix = None, interpolationSuffix = None \<rparr>,
          lint_cfg = None \<rparr>))
   \<and> calleeNameOf
        (JObj [(''type'', JStr ''CallExpression''),
          (''callee'', JObj [(''type'', JStr ''MemberExpression''),
            (''object'', JObj [(''type'', JStr ''Identifier''), (''value'', JStr ''i18n'')]),
            (''property'', JObj [(''type'', JStr ''Identifier''), (''value'', JStr ''t'')])]),
          (''arguments'', JArr [])]) = JStr ''t''
   \<and> callMatches
       (\<lparr> locales = [''en''],
          extract_cfg = \<lparr> primaryLanguage = None, secondaryLanguages = None,
            functionPatterns = Some [''*.t''], transComponents = None, outputFormat = None,
            indentation = None, extractFromComments = None,
            interpolationPrefix = None, interpolationSuffix = None \<rparr>,
          lint_cfg = None \<rparr>)
        (JObj [(''type'', JStr ''CallExpression''),
          (''callee'', JObj [(''type'', JStr ''MemberExpression''),
            (''object'', JObj [(''type'', JStr ''Identifier''), (''value'', JStr ''i18n'')]),
            (''property'', JObj [(''type'', JStr ''Identifier''), (''value'', JStr ''t'')])]),
          (''arguments'', JArr [])])
   \<and> calleeNameOf
        (JObj [(''type'', JStr ''CallExpression''),
          (''callee'', JObj [(''type'', JStr ''Identifier''), (''name'', JStr ''t'')]),
          (''arguments'', JArr [])]) = JStr ''t''
   \<and> calleeNameOf
        (JObj [(''type'', JStr ''CallExpression''),
          (''callee'', JObj [(''type'', JStr ''MemberExpression''),
            (''object'', JObj [(''type'', JStr ''Identifier''), (''value'', JStr ''i18n'')]),
            (''property'', JObj [(''type'', JStr ''Computed''),
              (''expression'', JObj [(''type'', JStr ''StringLiteral''), (''value'', JStr ''t'')])])]),
          (''arguments'', JArr [])]) = JStr []
   \<and> \<not> callMatches
       (\<lparr> locales = [''en''],
          extract_cfg = \<lparr> primaryLanguage = None, secondaryLanguages = None,
            functionPatterns = Some [''*.t''], transComponents = None, outputFormat = None,
            indentation = None, extractFromComments = None,
            interpolationPrefix = None, interpolationSuffix = None \<rparr>,
          lint_cfg = None \<rparr>)
        (JObj [(''type'', JStr ''CallExpression''),
          (''callee'', JObj [(''type'', JStr ''MemberExpression''),
            (''object'', JObj [(''type'', JStr ''Identifier''), (''value'', JStr ''i18n'')]),
            (''property'', JObj [(''type'', JStr ''Computed''),
              (''expression'', JObj [(''type'', JStr ''StringLiteral''), (''value'', JStr ''t'')])])]),
          (''arguments'', JArr [])])
   \<and> calleeNameOf
        (JObj [(''type'', JStr ''CallExpression''),
          (''callee'', JObj [(''type'', JStr ''CallExpression''),
            (''callee'', JObj [(''type'', JStr ''Identifier''), (''value'', JStr ''t'')]),
            (''arguments'', JArr [])]),
          (''arguments'', JArr [])]) = JStr []"
  using callMatches_by_callee_name
    [of "\<lparr> locales = [''en''],
          extract_cfg = \<lparr> primaryLanguage = None, secondaryLanguages = None,
            functionPatterns = Some [''*.t''], transComponents = None, outputFormat = None,
            indentation = None, extractFromComments = None,
            interpolationPrefix = None, interpolationSuffix = None \<rparr>,
          lint_cfg = None \<rparr>"
        "(JObj [(''type'', JStr ''CallExpression''),
          (''callee'', JObj [(''type'', JStr ''MemberExpression''),
            (''object'', JObj [(''type'', JStr ''Identifier''), (''value'', JStr ''i18n'')]),
            (''property'', JObj [(''type'', JStr ''Identifier''), (''value'', JStr ''t'')])]),
          (''arguments'', JArr [])])"]
    callMatches_by_callee_name
    [of "\<lparr> locales = [''en''],
          extract_cfg = \<lparr> primaryLanguage = None, secondaryLanguages = None,
            functionPatterns = Some [''*.t''], transComponents = None, outputFormat = None,
            indentation = None, extractFromComments = None,
            interpolationPrefix = None, interpolationSuffix = None \<rparr>,
          lint_cfg = None \<rparr>"
        "(JObj [(''type'', JStr ''CallExpression''),
          (''callee'', JObj [(''type'', JStr ''Identifier''), (''name'', JStr ''t'')]),
          (''arguments'', JArr [])])"]
    callMatches_by_callee_name
    [of "\<lparr> locales = [''en''],
          extract_cfg = \<lparr> primaryLanguage = None, secondaryLanguages = None,
            functionPatterns = Some [''*.t''], transComponents = None, outputFormat = None,
            indentation = None, extractFromComments = None,
            interpolationPrefix = None, interpolationSuffix = None \<rparr>,
          lint_cfg = None \<rparr>"
        "(JObj [(''type'', JStr ''CallExpression''),
          (''callee'', JObj [(''type'', JStr ''MemberExpression''),
            (''object'', JObj [(''type'', JStr ''Identifier''), (''value'', JStr ''i18n'')]),
            (''property'', JObj [(''type'', JStr ''Computed''),
              (''expression'', JObj [(''type'', JStr ''StringLiteral''), (''value'', JStr ''t'')])])]),
          (''arguments'', JArr [])])"]
    callMatches_by_callee_name
    [of "\<lparr> locales = [''en''],
          extract_cfg = \<lparr> primaryLanguage = None, secondaryLanguages = None,
            functionPatterns = Some [''*.t''], transComponents = None, outputFormat = None,
            indentation = None, extractFromComments = None,
            interpolationPrefix = None, interpolationSuffix = None \<rparr>,
          lint_cfg = None \<rparr>"
        "(JObj [(''type'', JStr ''CallExpression''),
          (''callee'', JObj [(''type'', JStr ''CallExpression''),
            (''callee'', JObj [(''type'', JStr ''Identifier''), (''value'', JStr ''t'')]),
            (''arguments'', JArr [])]),
          (''arguments'', JArr [])])"]
  by (simp add: startsWith_def slice_from_def fnPatternsOf_def)

section \<open>The linter: option keys are not reported as unused\<close>









section \<open>Linter.wrapError prefixes once\<close>







end
